theory Spec2Isabelle
  imports Main "HOL-Library.Word"
begin

section \<open>Data model of the consensus engine\<close>

text \<open>
  The engine (\<^verbatim>\<open>ConsensusEngine\<close>) is embedded with explicit state passing.  Hashes and
  addresses are natural numbers (the empty hash is 0); heights and epochs are Go
  \<^verbatim>\<open>uint64\<close> values, so \<open>+\<close> and \<open>-\<close> on them wrap around.
\<close>

type_synonym hash = nat
type_synonym address = nat
type_synonym u64 = "64 word"

definition IsEmpty :: "hash \<Rightarrow> bool" where
  "IsEmpty h = (h = 0)"

record Vote =
  vote_Block :: hash
  vote_Height :: u64
  vote_ID :: address
  vote_Epoch :: u64
  vote_Signature :: nat

text \<open>Modelled from the spec: a \<^verbatim>\<open>VoteSet\<close> is a collection of votes; \<^verbatim>\<open>NewVoteSet\<close> is the empty
  list, \<^verbatim>\<open>AddVote\<close> appends and \<^verbatim>\<open>Votes()\<close> lists the collection.\<close>

type_synonym VoteSet = "Vote list"

record CommitCertificate =
  cc_BlockHash :: hash
  cc_Votes :: VoteSet

record Block =
  blk_ChainID :: nat
  blk_Epoch :: u64
  blk_Height :: u64
  blk_Parent :: hash
  blk_HCC :: CommitCertificate
  blk_Proposer :: address
  blk_Timestamp :: nat
  blk_Txs :: "nat list"
  blk_StateHash :: hash
  blk_Signature :: nat

datatype BlockStatus = Pending | Valid | Invalid | Committed | Finalized

text \<open>Modelled from the spec: the status predicates of \<^verbatim>\<open>core.BlockStatus\<close>, which are not part
  of the engine source.  A parent is acceptable when it is Valid, Committed or Finalized; the
  two-chain rule finalizes a parent that is Committed.\<close>

definition status_IsValid :: "BlockStatus \<Rightarrow> bool" where
  "status_IsValid st = (st = Valid \<or> st = Committed \<or> st = Finalized)"

definition status_IsCommitted :: "BlockStatus \<Rightarrow> bool" where
  "status_IsCommitted st = (st = Committed)"

record ExtendedBlock =
  eb_Block :: Block
  eb_Children :: "hash list"
  eb_Status :: BlockStatus
  eb_HasValidatorUpdate :: bool

record Proposal =
  prop_Block :: "Block option"
  prop_ProposerID :: address
  prop_Votes :: VoteSet

datatype message = MsgVote Vote | MsgBlock Block | MsgOther

datatype outmsg = OutVote Vote | OutProposal Proposal

datatype error = Fatal | Panic | Diverges

subsection \<open>Collaborators\<close>

text \<open>
  The validator manager, the chain store, the consensus state's vote indices, the ledger, the
  crypto and the encoding layers are interfaces of the engine whose implementations are not
  part of the engine source.  Each of their operations is a parameter: \<open>'c\<close> is the state of
  the store (blocks and vote indices), \<open>'l\<close> the state of the ledger, \<open>'vs\<close> the type of
  validator sets.  A fallible operation returns an option (\<open>None\<close> is the Go error).
\<close>

record ('c, 'l, 'vs) env =
  \<comment> \<open>core.ValidatorManager and core.ValidatorSet\<close>
  GetValidatorSet :: "hash \<Rightarrow> 'vs"
  GetNextValidatorSet :: "hash \<Rightarrow> 'vs"
  GetNextProposer :: "hash \<Rightarrow> u64 \<Rightarrow> address"
  HasMajority :: "'vs \<Rightarrow> VoteSet \<Rightarrow> bool"
  GetValidator :: "'vs \<Rightarrow> address \<Rightarrow> bool"
  \<comment> \<open>core.Block, core.Vote, core.CommitCertificate, core.VoteSet\<close>
  Hash :: "Block \<Rightarrow> hash"
  block_Validate :: "Block \<Rightarrow> bool"
  vote_Validate :: "Vote \<Rightarrow> bool"
  IsValid :: "CommitCertificate \<Rightarrow> 'vs \<Rightarrow> bool"
  IsProven :: "CommitCertificate \<Rightarrow> 'vs \<Rightarrow> bool"
  UniqueVoter :: "VoteSet \<Rightarrow> VoteSet"
  UniqueVoterAndBlock :: "VoteSet \<Rightarrow> VoteSet"
  Merge :: "VoteSet \<Rightarrow> VoteSet option \<Rightarrow> VoteSet"
  \<comment> \<open>crypto.PrivateKey and rlp\<close>
  Address :: address
  SignVote :: "Vote \<Rightarrow> nat option"
  SignBlock :: "Block \<Rightarrow> nat option"
  EncodeVote :: "Vote \<Rightarrow> bool"
  EncodeProposal :: "Proposal \<Rightarrow> bool"
  \<comment> \<open>blockchain.Chain\<close>
  ChainID :: "'c \<Rightarrow> nat"
  FindBlock :: "'c \<Rightarrow> hash \<Rightarrow> ExtendedBlock option"
  IsDescendant :: "'c \<Rightarrow> hash \<Rightarrow> hash \<Rightarrow> bool"
  AddBlock :: "'c \<Rightarrow> Block \<Rightarrow> 'c option"
  MarkBlockValid :: "'c \<Rightarrow> hash \<Rightarrow> 'c"
  MarkBlockInvalid :: "'c \<Rightarrow> hash \<Rightarrow> 'c"
  MarkBlockHasValidatorUpdate :: "'c \<Rightarrow> hash \<Rightarrow> 'c"
  CommitBlock :: "'c \<Rightarrow> hash \<Rightarrow> 'c"
  FinalizePreviousBlocks :: "'c \<Rightarrow> hash \<Rightarrow> 'c"
  AddTxsToIndex :: "'c \<Rightarrow> ExtendedBlock \<Rightarrow> bool \<Rightarrow> 'c"
  FindVotesByHash :: "'c \<Rightarrow> hash \<Rightarrow> VoteSet"
  \<comment> \<open>the vote indices behind State.AddVote and State.GetEpochVotes\<close>
  AddVote :: "'c \<Rightarrow> Vote \<Rightarrow> 'c option"
  GetEpochVotes :: "'c \<Rightarrow> VoteSet option"
  \<comment> \<open>core.Ledger; the first component of a result is IsError()\<close>
  ResetState :: "'l \<Rightarrow> u64 \<Rightarrow> hash \<Rightarrow> bool \<times> 'l"
  ApplyBlockTxs :: "'l \<Rightarrow> nat list \<Rightarrow> hash \<Rightarrow> (bool \<times> bool option) \<times> 'l"
  FinalizeState :: "'l \<Rightarrow> u64 \<Rightarrow> hash \<Rightarrow> 'l"
  ProposeBlockTxs :: "'l \<Rightarrow> (hash \<times> nat list \<times> bool) \<times> 'l"
  \<comment> \<open>configuration and clock\<close>
  MessageQueueSize :: nat
  Now :: nat

text \<open>
  Modelled from the spec: the consensus state (\<^verbatim>\<open>State\<close>, whose source is not part of the
  engine) holds \<open>epoch\<close>, \<open>lastVote\<close>, \<open>LastProposal\<close>, \<open>highestCCBlock\<close> and
  \<open>lastFinalizedBlock\<close>; its getters read and its setters write these fields.  The engine's
  state adds the store, the ledger, the \<open>stopped\<close> flag, the log \<open>sent\<close> of the messages handed
  to the dispatcher and the content \<open>finalizedBlocks\<close> of the bounded output channel.
\<close>

record ('c, 'l) engine =
  store :: 'c
  ledger :: 'l
  stopped :: bool
  finalizedBlocks :: "Block list"
  sent :: "outmsg list"
  epoch :: u64
  lastVote :: Vote
  LastProposal :: Proposal
  highestCCBlock :: ExtendedBlock
  lastFinalizedBlock :: ExtendedBlock

section \<open>The engine\<close>

definition eb_Hash :: "('c, 'l, 'vs) env \<Rightarrow> ExtendedBlock \<Rightarrow> hash" where
  "eb_Hash env b = Hash env (eb_Block b)"

definition shouldProposeByID ::
  "('c, 'l, 'vs) env \<Rightarrow> ('c, 'l) engine \<Rightarrow> u64 \<Rightarrow> address \<Rightarrow> bool" where
  "shouldProposeByID env e ep ident =
     (let extBlk = lastFinalizedBlock e;
          proposer = GetNextProposer env (eb_Hash env extBlk) ep
      in if proposer \<noteq> ident then False else True)"

definition validateBlock ::
  "('c, 'l, 'vs) env \<Rightarrow> ('c, 'l) engine \<Rightarrow> Block \<Rightarrow> ExtendedBlock \<Rightarrow> bool" where
  "validateBlock env e block parent =
     (let validators = GetValidatorSet env (Hash env block) in
      if blk_Height (eb_Block parent) + 1 \<noteq> blk_Height block then False
      else if blk_Epoch (eb_Block parent) \<ge> blk_Epoch block then False
      else if \<not> status_IsValid (eb_Status parent) then False
      else if \<not> IsDescendant env (store e) (cc_BlockHash (blk_HCC block)) (Hash env block)
        then False
      else if \<not> IsValid env (blk_HCC block) validators then False
      else if eb_HasValidatorUpdate parent \<and> cc_BlockHash (blk_HCC block) \<noteq> blk_Parent block
        then False
      else if \<not> IsEmpty (blk_Parent (eb_Block parent)) \<and>
              (case FindBlock env (store e) (blk_Parent (eb_Block parent)) of
                 None \<Rightarrow> True
               | Some grandParent \<Rightarrow>
                   eb_HasValidatorUpdate grandParent \<and>
                   (cc_BlockHash (blk_HCC block) \<noteq> blk_Parent block \<or>
                    \<not> IsProven env (blk_HCC block) validators))
        then False
      else if \<not> block_Validate env block then False
      else if \<not> shouldProposeByID env e (blk_Epoch block) (blk_Proposer block) then False
      else True)"


definition broadcastVote ::
  "('c, 'l, 'vs) env \<Rightarrow> ('c, 'l) engine \<Rightarrow> Vote \<Rightarrow> ('c, 'l) engine" where
  "broadcastVote env e vote =
     (if \<not> EncodeVote env vote then e
      else e\<lparr>sent := sent e @ [OutVote vote]\<rparr>)"

definition createVote ::
  "('c, 'l, 'vs) env \<Rightarrow> ('c, 'l) engine \<Rightarrow> Block \<Rightarrow> error + Vote" where
  "createVote env e block =
     (let vote = \<lparr>vote_Block = Hash env block, vote_Height = blk_Height block,
                  vote_ID = Address env, vote_Epoch = epoch e, vote_Signature = 0\<rparr>
      in case SignVote env vote of
           None \<Rightarrow> Inl Panic
         | Some sig \<Rightarrow> Inr (vote\<lparr>vote_Signature := sig\<rparr>))"

definition validateVote :: "('c, 'l, 'vs) env \<Rightarrow> Vote \<Rightarrow> bool" where
  "validateVote env vote = (if \<not> vote_Validate env vote then False else True)"

text \<open>\<^verbatim>\<open>handleVote\<close> returns the new state together with \<open>endEpoch\<close>.\<close>

definition handleVote ::
  "('c, 'l, 'vs) env \<Rightarrow> ('c, 'l) engine \<Rightarrow> Vote \<Rightarrow> error + (('c, 'l) engine \<times> bool)" where
  "handleVote env e vote =
     (if \<not> validateVote env vote then Inr (e, False)
      else case AddVote env (store e) vote of
        None \<Rightarrow> Inl Panic
      | Some st \<Rightarrow>
          (let e1 = e\<lparr>store := st\<rparr>;
               lfb = lastFinalizedBlock e1;
               nextValidators = GetNextValidatorSet env (eb_Hash env lfb)
           in if vote_Epoch vote \<ge> epoch e1 then
                (case GetEpochVotes env (store e1) of
                   None \<Rightarrow> Inl Panic
                 | Some allEpochVotes \<Rightarrow>
                     (let currentEpochVotes =
                            filter (\<lambda>v. vote_Epoch v \<ge> vote_Epoch vote) allEpochVotes
                      in if HasMajority env nextValidators currentEpochVotes then
                           (let nextEpoch = vote_Epoch vote + 1;
                                e2 = (if nextEpoch > epoch e1 + 1
                                      then foldl (broadcastVote env) e1 currentEpochVotes
                                      else e1)
                            in Inr (e2\<lparr>epoch := nextEpoch\<rparr>, True))
                         else Inr (e1, False)))
              else Inr (e1, False)))"

definition handleVoteInBlock ::
  "('c, 'l, 'vs) env \<Rightarrow> ('c, 'l) engine \<Rightarrow> Vote \<Rightarrow> error + (('c, 'l) engine \<times> bool)" where
  "handleVoteInBlock env e vote = handleVote env e vote"

definition finalizeBlock ::
  "('c, 'l, 'vs) env \<Rightarrow> ('c, 'l) engine \<Rightarrow> ExtendedBlock \<Rightarrow> ('c, 'l) engine" where
  "finalizeBlock env e block =
     (if stopped e then e
      else if eb_Hash env block = eb_Hash env (lastFinalizedBlock e) then e
      else
        (let e1 = e\<lparr>lastFinalizedBlock := block\<rparr>;
             e2 = e1\<lparr>ledger := FinalizeState env (ledger e1) (blk_Height (eb_Block block))
                                   (blk_StateHash (eb_Block block))\<rparr>;
             e3 = e2\<lparr>store := FinalizePreviousBlocks env (store e2) (eb_Hash env block)\<rparr>;
             e4 = e3\<lparr>store := AddTxsToIndex env (store e3) block True\<rparr>
         in if length (finalizedBlocks e4) < MessageQueueSize env
            then e4\<lparr>finalizedBlocks := finalizedBlocks e4 @ [eb_Block block]\<rparr>
            else e4))"

definition processCCBlock ::
  "('c, 'l, 'vs) env \<Rightarrow> ('c, 'l) engine \<Rightarrow> ExtendedBlock \<Rightarrow> ('c, 'l) engine" where
  "processCCBlock env e ccBlock =
     (if blk_Height (eb_Block ccBlock) \<le> blk_Height (eb_Block (highestCCBlock e)) then e
      else
        (let e1 = e\<lparr>highestCCBlock := ccBlock\<rparr>;
             e2 = e1\<lparr>store := CommitBlock env (store e1) (eb_Hash env ccBlock)\<rparr>
         in case FindBlock env (store e2) (blk_Parent (eb_Block ccBlock)) of
              None \<Rightarrow> e2
            | Some parent \<Rightarrow>
                if status_IsCommitted (eb_Status parent) then finalizeBlock env e2 parent
                else e2))"

definition checkCC ::
  "('c, 'l, 'vs) env \<Rightarrow> ('c, 'l) engine \<Rightarrow> hash \<Rightarrow> ('c, 'l) engine" where
  "checkCC env e h =
     (if IsEmpty h then e
      else case FindBlock env (store e) h of
        None \<Rightarrow> e
      | Some block \<Rightarrow>
          (let highestCCBlockHeight = blk_Height (eb_Block (highestCCBlock e))
           in if blk_Height (eb_Block block) < highestCCBlockHeight then e
              else
                (let votes = FindVotesByHash env (store e) h;
                     validators = GetValidatorSet env h
                 in if HasMajority env validators votes then processCCBlock env e block
                    else e)))"

definition handleStandaloneVote ::
  "('c, 'l, 'vs) env \<Rightarrow> ('c, 'l) engine \<Rightarrow> Vote \<Rightarrow> error + (('c, 'l) engine \<times> bool)" where
  "handleStandaloneVote env e vote =
     (case handleVote env e vote of
        Inl err \<Rightarrow> Inl err
      | Inr (e1, endEpoch) \<Rightarrow> Inr (checkCC env e1 (vote_Block vote), endEpoch))"

subsection \<open>Tip selection\<close>

text \<open>
  The depth-first search of \<^verbatim>\<open>GetTip\<close> keeps a stack whose top is the last element of the Go
  slice; here the top is the head of the list.  A child that the store cannot find is fatal.
  The search need not end on a store whose children relation is cyclic, so the loop is a
  partial function and a search that never returns is the error \<open>Diverges\<close>.
\<close>

fun pushChildren ::
  "('c, 'l, 'vs) env \<Rightarrow> 'c \<Rightarrow> hash list \<Rightarrow> ExtendedBlock list \<Rightarrow> error + ExtendedBlock list"
  where
  "pushChildren env ch [] stack = Inr stack"
| "pushChildren env ch (childHash # hs) stack =
     (case FindBlock env ch childHash of
        None \<Rightarrow> Inl Fatal
      | Some child \<Rightarrow> pushChildren env ch hs (child # stack))"

partial_function (option) GetTip_loop ::
  "('c, 'l, 'vs) env \<Rightarrow> 'c \<Rightarrow> bool \<Rightarrow> ExtendedBlock list \<Rightarrow> ExtendedBlock
     \<Rightarrow> (error + ExtendedBlock) option" where
  "GetTip_loop env ch includePendingBlockingLeaf stack candidate =
     (case stack of
        [] \<Rightarrow> Some (Inr candidate)
      | cur # rest \<Rightarrow>
          if \<not> status_IsValid (eb_Status cur)
            then GetTip_loop env ch includePendingBlockingLeaf rest candidate
          else if \<not> includePendingBlockingLeaf \<and> eb_HasValidatorUpdate cur
            then GetTip_loop env ch includePendingBlockingLeaf rest candidate
          else
            (case pushChildren env ch (eb_Children cur) rest of
               Inl err \<Rightarrow> Some (Inl err)
             | Inr stack' \<Rightarrow>
                 GetTip_loop env ch includePendingBlockingLeaf stack'
                   (if blk_Height (eb_Block cur) > blk_Height (eb_Block candidate)
                    then cur else candidate)))"

definition GetTip ::
  "('c, 'l, 'vs) env \<Rightarrow> ('c, 'l) engine \<Rightarrow> bool \<Rightarrow> error + ExtendedBlock" where
  "GetTip env e includePendingBlockingLeaf =
     (let hcc = highestCCBlock e
      in case GetTip_loop env (store e) includePendingBlockingLeaf [hcc] hcc of
           None \<Rightarrow> Inl Diverges
         | Some r \<Rightarrow> r)"

definition GetTipToVote :: "('c, 'l, 'vs) env \<Rightarrow> ('c, 'l) engine \<Rightarrow> error + ExtendedBlock" where
  "GetTipToVote env e = GetTip env e True"

definition GetTipToExtend :: "('c, 'l, 'vs) env \<Rightarrow> ('c, 'l) engine \<Rightarrow> error + ExtendedBlock" where
  "GetTipToExtend env e = GetTip env e False"


subsection \<open>Voting\<close>

definition shouldVoteByID :: "('c, 'l, 'vs) env \<Rightarrow> address \<Rightarrow> hash \<Rightarrow> bool" where
  "shouldVoteByID env ident block =
     (let validators = GetValidatorSet env block in GetValidator env validators ident)"

definition shouldVote :: "('c, 'l, 'vs) env \<Rightarrow> hash \<Rightarrow> bool" where
  "shouldVote env block = shouldVoteByID env (Address env) block"

definition vote :: "('c, 'l, 'vs) env \<Rightarrow> ('c, 'l) engine \<Rightarrow> error + ('c, 'l) engine" where
  "vote env e =
     (case GetTipToVote env e of
        Inl err \<Rightarrow> Inl err
      | Inr tip \<Rightarrow>
          if \<not> shouldVote env (eb_Hash env tip) then Inr e
          else
            (let lv = lastVote e;
                 shouldRepeatVote =
                   (if vote_Height lv \<noteq> 0 \<and> vote_Height lv \<ge> blk_Height (eb_Block tip)
                    then True
                    else (let localHCC = eb_Hash env (highestCCBlock e)
                          in if vote_Height lv \<noteq> 0 \<and>
                                cc_BlockHash (blk_HCC (eb_Block tip)) \<noteq> localHCC
                             then True else False))
             in case (if shouldRepeatVote then
                        (case FindBlock env (store e) (vote_Block lv) of
                           None \<Rightarrow> Inl Panic
                         | Some block \<Rightarrow>
                             (case createVote env e (eb_Block block) of
                                Inl err \<Rightarrow> Inl err
                              | Inr v \<Rightarrow> Inr (v, e)))
                      else
                        (case createVote env e (eb_Block tip) of
                           Inl err \<Rightarrow> Inl err
                         | Inr v \<Rightarrow> Inr (v, e\<lparr>lastVote := v\<rparr>)))
                of
                  Inl err \<Rightarrow> Inl err
                | Inr (v, e1) \<Rightarrow>
                    (case handleVote env (broadcastVote env e1 v) v of
                       Inl err \<Rightarrow> Inl err
                     | Inr (e2, endEpoch) \<Rightarrow> Inr e2)))"

subsection \<open>Blocks\<close>

text \<open>The loop of \<^verbatim>\<open>handleBlock\<close> over the votes of the block's HCC; each \<open>endEpoch\<close> is dropped.\<close>

fun handleBlock_votes ::
  "('c, 'l, 'vs) env \<Rightarrow> ('c, 'l) engine \<Rightarrow> Vote list \<Rightarrow> error + ('c, 'l) engine" where
  "handleBlock_votes env e [] = Inr e"
| "handleBlock_votes env e (v # vs) =
     (case handleVoteInBlock env e v of
        Inl err \<Rightarrow> Inl err
      | Inr (e1, endEpoch) \<Rightarrow> handleBlock_votes env e1 vs)"

definition handleBlock ::
  "('c, 'l, 'vs) env \<Rightarrow> ('c, 'l) engine \<Rightarrow> Block \<Rightarrow> error + ('c, 'l) engine" where
  "handleBlock env e block =
     (case FindBlock env (store e) (blk_Parent block) of
        None \<Rightarrow> Inl Fatal
      | Some parent \<Rightarrow>
          if \<not> validateBlock env e block parent
            then Inr (e\<lparr>store := MarkBlockInvalid env (store e) (Hash env block)\<rparr>)
          else
            (case handleBlock_votes env e (cc_Votes (blk_HCC block)) of
               Inl err \<Rightarrow> Inl err
             | Inr e1 \<Rightarrow>
                 (let r1 = ResetState env (ledger e1) (blk_Height (eb_Block parent))
                             (blk_StateHash (eb_Block parent));
                      e2 = e1\<lparr>ledger := snd r1\<rparr>
                  in if fst r1 then Inr e2
                     else
                       (let r2 = ApplyBlockTxs env (ledger e2) (blk_Txs block)
                                   (blk_StateHash block);
                            e3 = e2\<lparr>ledger := snd r2\<rparr>
                        in if fst (fst r2) then Inr e3
                           else
                             (let e4 = (if snd (fst r2) = Some True
                                        then e3\<lparr>store := MarkBlockHasValidatorUpdate env
                                                            (store e3) (Hash env block)\<rparr>
                                        else e3);
                                  e5 = e4\<lparr>store := MarkBlockValid env (store e4)
                                                      (Hash env block)\<rparr>;
                                  e6 = checkCC env e5 (Hash env block)
                              in if blk_Epoch block < epoch e6 - 1 then Inr e6
                                 else vote env e6)))))"

definition processMessage ::
  "('c, 'l, 'vs) env \<Rightarrow> ('c, 'l) engine \<Rightarrow> message
     \<Rightarrow> error + (('c, 'l) engine \<times> bool)" where
  "processMessage env e msg =
     (case msg of
        MsgVote m \<Rightarrow> handleStandaloneVote env e m
      | MsgBlock m \<Rightarrow>
          (case handleBlock env e m of
             Inl err \<Rightarrow> Inl err
           | Inr e1 \<Rightarrow> Inr (e1, False))
      | MsgOther \<Rightarrow> Inl Panic)"

subsection \<open>Proposals\<close>

text \<open>\<^verbatim>\<open>createProposal\<close> returns the state and the proposal, \<open>None\<close> when the Go function
  returns an error.\<close>

definition createProposal ::
  "('c, 'l, 'vs) env \<Rightarrow> ('c, 'l) engine \<Rightarrow> error + (('c, 'l) engine \<times> Proposal option)" where
  "createProposal env e =
     (case GetTipToExtend env e of
        Inl err \<Rightarrow> Inl err
      | Inr tip \<Rightarrow>
          (let r1 = ResetState env (ledger e) (blk_Height (eb_Block tip))
                      (blk_StateHash (eb_Block tip));
               e1 = e\<lparr>ledger := snd r1\<rparr>
           in if fst r1 then Inl Panic
              else
                (let hccHash = eb_Hash env (highestCCBlock e1);
                     block0 = \<lparr>blk_ChainID = ChainID env (store e1), blk_Epoch = epoch e1,
                               blk_Height = blk_Height (eb_Block tip) + 1,
                               blk_Parent = eb_Hash env tip,
                               blk_HCC = \<lparr>cc_BlockHash = hccHash,
                                          cc_Votes = UniqueVoter env
                                            (FindVotesByHash env (store e1) hccHash)\<rparr>,
                               blk_Proposer = Address env, blk_Timestamp = Now env,
                               blk_Txs = [], blk_StateHash = 0, blk_Signature = 0\<rparr>;
                     r2 = ProposeBlockTxs env (ledger e1);
                     newRoot = fst (fst r2);
                     txs = fst (snd (fst r2));
                     e2 = e1\<lparr>ledger := snd r2\<rparr>
                 in if snd (snd (fst r2)) then Inr (e2, None)
                    else
                      (let block1 = block0\<lparr>blk_Txs := txs, blk_StateHash := newRoot\<rparr>
                       in case SignBlock env block1 of
                            None \<Rightarrow> Inl Panic
                          | Some sig \<Rightarrow>
                              (let block = block1\<lparr>blk_Signature := sig\<rparr>;
                                   lastCC = highestCCBlock e2;
                                   lastCCVotes = FindVotesByHash env (store e2)
                                                   (eb_Hash env lastCC);
                                   epochVotes = GetEpochVotes env (store e2);
                                   votes0 = UniqueVoterAndBlock env
                                              (Merge env lastCCVotes epochVotes)
                               in case createVote env e2 block of
                                    Inl err \<Rightarrow> Inl err
                                  | Inr selfVote \<Rightarrow>
                                      (let proposal = \<lparr>prop_Block = Some block,
                                                        prop_ProposerID = Address env,
                                                        prop_Votes = votes0 @ [selfVote]\<rparr>
                                       in case AddBlock env (store e2) block of
                                            None \<Rightarrow> Inr (e2, None)
                                          | Some st \<Rightarrow>
                                              (case handleBlock env (e2\<lparr>store := st\<rparr>) block of
                                                 Inl err \<Rightarrow> Inl err
                                               | Inr e3 \<Rightarrow> Inr (e3, Some proposal))))))))"

definition propose :: "('c, 'l, 'vs) env \<Rightarrow> ('c, 'l) engine \<Rightarrow> error + ('c, 'l) engine" where
  "propose env e =
     (let lastProposal = LastProposal e
      in case (if (case prop_Block lastProposal of
                     None \<Rightarrow> False
                   | Some b \<Rightarrow> epoch e = blk_Epoch b)
               then Inr (e, Some lastProposal)
               else (case createProposal env e of
                       Inl err \<Rightarrow> Inl err
                     | Inr (e1, None) \<Rightarrow> Inr (e1, None)
                     | Inr (e1, Some proposal) \<Rightarrow>
                         Inr (e1\<lparr>LastProposal := proposal\<rparr>, Some proposal)))
         of
           Inl err \<Rightarrow> Inl err
         | Inr (e1, None) \<Rightarrow> Inr e1
         | Inr (e1, Some proposal) \<Rightarrow>
             if \<not> EncodeProposal env proposal then Inr e1
             else Inr (e1\<lparr>sent := sent e1 @ [OutProposal proposal]\<rparr>))"


subsection \<open>The event loop\<close>

text \<open>
  One pass through the \<^verbatim>\<open>select\<close> of \<^verbatim>\<open>mainLoop\<close>.  Which case fires is decided by the
  channels and timers; it is the parameter \<open>ev\<close>.  The result says how the inner loop goes
  on: with the next pass, with \<^verbatim>\<open>break Epoch\<close> (the outer loop then enters the epoch anew), or
  with the return of \<^verbatim>\<open>mainLoop\<close>.
\<close>

datatype event = Done | Incoming message | EpochTimer | ProposalTimer

datatype control = Continue | BreakEpoch | Return

definition mainLoop_select ::
  "('c, 'l, 'vs) env \<Rightarrow> ('c, 'l) engine \<Rightarrow> event
     \<Rightarrow> error + (('c, 'l) engine \<times> control)" where
  "mainLoop_select env e ev =
     (case ev of
        Done \<Rightarrow> Inr (e\<lparr>stopped := True\<rparr>, Return)
      | Incoming msg \<Rightarrow>
          (case processMessage env e msg of
             Inl err \<Rightarrow> Inl err
           | Inr (e1, endEpoch) \<Rightarrow> Inr (e1, if endEpoch then BreakEpoch else Continue))
      | EpochTimer \<Rightarrow>
          (case vote env e of
             Inl err \<Rightarrow> Inl err
           | Inr e1 \<Rightarrow> Inr (e1, BreakEpoch))
      | ProposalTimer \<Rightarrow>
          (case propose env e of
             Inl err \<Rightarrow> Inl err
           | Inr e1 \<Rightarrow> Inr (e1, Continue)))"

section \<open>A concrete instance of the collaborators\<close>

text \<open>
  The theorems of this theory hold for every implementation of the collaborators.  To run the
  engine on explicit inputs, they are instantiated here by a small store (an association
  list of blocks and the list of all indexed votes), a ledger without state that accepts
  every block, and validators of weight one.  The hash of a block is its height plus one, a
  vote is valid when its signature is the voter's address, and the node's own address is 1.
\<close>

record store0 =
  st_blocks :: "(hash \<times> ExtendedBlock) list"
  st_votes :: "Vote list"

text \<open>Modelled from the spec: a majority is at least 2/3 of the total weight, each voter
  counted once; every validator has weight one here.\<close>

definition majority :: "address list \<Rightarrow> VoteSet \<Rightarrow> bool" where
  "majority vs votes =
     (2 * length vs \<le> 3 * length (filter (\<lambda>a. a \<in> vote_ID ` set votes) vs))"

definition hash0 :: "Block \<Rightarrow> hash" where
  "hash0 b = unat (blk_Height b) + 1"

definition setStatus :: "BlockStatus \<Rightarrow> store0 \<Rightarrow> hash \<Rightarrow> store0" where
  "setStatus status st h =
     st\<lparr>st_blocks := map (\<lambda>(k, b). if k = h then (k, b\<lparr>eb_Status := status\<rparr>) else (k, b))
                         (st_blocks st)\<rparr>"

definition setHasValidatorUpdate :: "store0 \<Rightarrow> hash \<Rightarrow> store0" where
  "setHasValidatorUpdate st h =
     st\<lparr>st_blocks := map (\<lambda>(k, b). if k = h then (k, b\<lparr>eb_HasValidatorUpdate := True\<rparr>)
                                   else (k, b))
                         (st_blocks st)\<rparr>"

definition addBlock0 :: "store0 \<Rightarrow> Block \<Rightarrow> store0 option" where
  "addBlock0 st b =
     Some (st\<lparr>st_blocks :=
       map (\<lambda>(k, p). if k = blk_Parent b
                      then (k, p\<lparr>eb_Children := eb_Children p @ [hash0 b]\<rparr>) else (k, p))
           (st_blocks st)
       @ [(hash0 b, \<lparr>eb_Block = b, eb_Children = [], eb_Status = Pending,
                     eb_HasValidatorUpdate = False\<rparr>)]\<rparr>)"

definition env0 :: "(store0, unit, address list) env" where
  "env0 =
     \<lparr>GetValidatorSet = (\<lambda>h. [1]),
      GetNextValidatorSet = (\<lambda>h. [1]),
      GetNextProposer = (\<lambda>h ep. 1),
      HasMajority = majority,
      GetValidator = (\<lambda>vs a. a \<in> set vs),
      Hash = hash0,
      block_Validate = (\<lambda>b. True),
      vote_Validate = (\<lambda>v. vote_Signature v = vote_ID v),
      IsValid = (\<lambda>cc vs. cc_Votes cc = [] \<or> majority vs (cc_Votes cc)),
      IsProven = (\<lambda>cc vs. majority vs (cc_Votes cc)),
      UniqueVoter = (\<lambda>votes. votes),
      UniqueVoterAndBlock = (\<lambda>votes. votes),
      Merge = (\<lambda>a b. a @ (case b of None \<Rightarrow> [] | Some c \<Rightarrow> c)),
      Address = 1,
      SignVote = (\<lambda>v. Some (vote_ID v)),
      SignBlock = (\<lambda>b. Some 1),
      EncodeVote = (\<lambda>v. True),
      EncodeProposal = (\<lambda>p. True),
      ChainID = (\<lambda>st. 0),
      FindBlock = (\<lambda>st h. map_of (st_blocks st) h),
      IsDescendant = (\<lambda>st a d. a \<le> d),
      AddBlock = addBlock0,
      MarkBlockValid = setStatus Valid,
      MarkBlockInvalid = setStatus Invalid,
      MarkBlockHasValidatorUpdate = setHasValidatorUpdate,
      CommitBlock = setStatus Committed,
      FinalizePreviousBlocks = setStatus Finalized,
      AddTxsToIndex = (\<lambda>st b force. st),
      FindVotesByHash = (\<lambda>st h. filter (\<lambda>v. vote_Block v = h) (st_votes st)),
      AddVote = (\<lambda>st v. Some (st\<lparr>st_votes := st_votes st @ [v]\<rparr>)),
      GetEpochVotes = (\<lambda>st. Some (st_votes st)),
      ResetState = (\<lambda>l h r. (False, l)),
      ApplyBlockTxs = (\<lambda>l txs r. ((False, None), l)),
      FinalizeState = (\<lambda>l h r. l),
      ProposeBlockTxs = (\<lambda>l. ((0, [], False), l)),
      MessageQueueSize = 4,
      Now = 0\<rparr>"

text \<open>Builders for blocks, votes and engine states; a block's epoch is its height.\<close>

definition cc :: "hash \<Rightarrow> VoteSet \<Rightarrow> CommitCertificate" where
  "cc h votes = \<lparr>cc_BlockHash = h, cc_Votes = votes\<rparr>"

definition blk :: "u64 \<Rightarrow> hash \<Rightarrow> CommitCertificate \<Rightarrow> Block" where
  "blk h par hcc =
     \<lparr>blk_ChainID = 0, blk_Epoch = h, blk_Height = h, blk_Parent = par, blk_HCC = hcc,
      blk_Proposer = 1, blk_Timestamp = 0, blk_Txs = [], blk_StateHash = 0,
      blk_Signature = 1\<rparr>"

definition ext :: "Block \<Rightarrow> hash list \<Rightarrow> BlockStatus \<Rightarrow> bool \<Rightarrow> ExtendedBlock" where
  "ext b children status upd =
     \<lparr>eb_Block = b, eb_Children = children, eb_Status = status, eb_HasValidatorUpdate = upd\<rparr>"

definition vt :: "hash \<Rightarrow> u64 \<Rightarrow> address \<Rightarrow> u64 \<Rightarrow> Vote" where
  "vt b h a ep =
     \<lparr>vote_Block = b, vote_Height = h, vote_ID = a, vote_Epoch = ep, vote_Signature = a\<rparr>"

definition noVote :: Vote where
  "noVote = \<lparr>vote_Block = 0, vote_Height = 0, vote_ID = 0, vote_Epoch = 0, vote_Signature = 0\<rparr>"

definition eng ::
  "store0 \<Rightarrow> u64 \<Rightarrow> Vote \<Rightarrow> ExtendedBlock \<Rightarrow> ExtendedBlock \<Rightarrow> (store0, unit) engine" where
  "eng st ep lv hcc lfb =
     \<lparr>store = st, ledger = (), stopped = False, finalizedBlocks = [], sent = [],
      epoch = ep, lastVote = lv,
      LastProposal = \<lparr>prop_Block = None, prop_ProposerID = 0, prop_Votes = []\<rparr>,
      highestCCBlock = hcc, lastFinalizedBlock = lfb\<rparr>"

text \<open>A genesis block (hash 1) with one pending child at height 1 (hash 2).\<close>

definition genesis :: ExtendedBlock where
  "genesis = ext (blk 0 0 (cc 0 [])) [2] Committed False"

definition st_gen :: store0 where
  "st_gen = \<lparr>st_blocks = [(1, genesis), (2, ext (blk 1 1 (cc 1 [])) [] Pending False)],
             st_votes = []\<rparr>"

text \<open>A chain whose blocks at heights 1 and 2 (hashes 2 and 3) carry validator updates;
  \<open>p_plain\<close> is the block at height 2 without the update.\<close>

definition gp_upd :: ExtendedBlock where
  "gp_upd = ext (blk 1 1 (cc 1 [])) [3] Valid True"

definition p_upd :: ExtendedBlock where
  "p_upd = ext (blk 2 2 (cc 2 [])) [4] Valid True"

definition p_plain :: ExtendedBlock where
  "p_plain = ext (blk 2 2 (cc 2 [])) [4] Valid False"

definition st_upd :: store0 where
  "st_upd = \<lparr>st_blocks = [(2, gp_upd), (3, p_upd)], st_votes = []\<rparr>"

definition e_upd :: "(store0, unit) engine" where
  "e_upd = eng st_upd 3 noVote gp_upd gp_upd"

text \<open>A chain of three valid blocks at heights 0, 1 and 2 (hashes 1, 2, 3); the HCC of the
  last block names the block at height 1.\<close>

definition tip2 :: ExtendedBlock where
  "tip2 = ext (blk 2 2 (cc 2 [])) [] Valid False"

definition st_valid :: store0 where
  "st_valid = \<lparr>st_blocks = [(1, genesis), (2, ext (blk 1 1 (cc 1 [])) [3] Valid False),
                             (3, tip2)],
               st_votes = []\<rparr>"

text \<open>A store that holds only a genesis block without children, and one indexed vote for it.\<close>

definition genesis0 :: ExtendedBlock where
  "genesis0 = ext (blk 0 0 (cc 0 [])) [] Committed False"

definition st_only :: store0 where
  "st_only = \<lparr>st_blocks = [(1, genesis0)], st_votes = [vt 1 0 1 1]\<rparr>"

text \<open>A validator manager whose answer depends on the hash: validator 1 alone for hash 4,
  validators 2, 3 and 4 for every other hash.\<close>

definition env_split :: "(store0, unit, address list) env" where
  "env_split = env0\<lparr>GetValidatorSet := (\<lambda>h. if h = 4 then [1] else [2, 3, 4])\<rparr>"

text \<open>A finalized chain: the blocks at heights 1 and 2 (hashes 2 and 3) both have status
  Finalized in the store.\<close>

definition fin1 :: ExtendedBlock where
  "fin1 = ext (blk 1 1 (cc 1 [])) [3] Finalized False"

definition fin2 :: ExtendedBlock where
  "fin2 = ext (blk 2 2 (cc 2 [])) [] Finalized False"

definition st_fin :: store0 where
  "st_fin = \<lparr>st_blocks = [(2, fin1), (3, fin2)], st_votes = []\<rparr>"

section \<open>Auxiliary facts\<close>

declare GetTip_loop.simps [code]

lemma env0_sel [simp]:
  "GetValidatorSet env0 = (\<lambda>h. [1])"
  "GetNextValidatorSet env0 = (\<lambda>h. [1])"
  "GetNextProposer env0 = (\<lambda>h ep. 1)"
  "HasMajority env0 = majority"
  "GetValidator env0 = (\<lambda>vs a. a \<in> set vs)"
  "Hash env0 = hash0"
  "block_Validate env0 = (\<lambda>b. True)"
  "vote_Validate env0 = (\<lambda>v. vote_Signature v = vote_ID v)"
  "IsValid env0 = (\<lambda>cc vs. cc_Votes cc = [] \<or> majority vs (cc_Votes cc))"
  "IsProven env0 = (\<lambda>cc vs. majority vs (cc_Votes cc))"
  "UniqueVoter env0 = (\<lambda>votes. votes)"
  "UniqueVoterAndBlock env0 = (\<lambda>votes. votes)"
  "Merge env0 = (\<lambda>a b. a @ (case b of None \<Rightarrow> [] | Some c \<Rightarrow> c))"
  "Address env0 = 1"
  "SignVote env0 = (\<lambda>v. Some (vote_ID v))"
  "SignBlock env0 = (\<lambda>b. Some 1)"
  "EncodeVote env0 = (\<lambda>v. True)"
  "EncodeProposal env0 = (\<lambda>p. True)"
  "ChainID env0 = (\<lambda>st. 0)"
  "FindBlock env0 = (\<lambda>st h. map_of (st_blocks st) h)"
  "IsDescendant env0 = (\<lambda>st a d. a \<le> d)"
  "AddBlock env0 = addBlock0"
  "MarkBlockValid env0 = setStatus Valid"
  "MarkBlockInvalid env0 = setStatus Invalid"
  "MarkBlockHasValidatorUpdate env0 = setHasValidatorUpdate"
  "CommitBlock env0 = setStatus Committed"
  "FinalizePreviousBlocks env0 = setStatus Finalized"
  "AddTxsToIndex env0 = (\<lambda>st b force. st)"
  "FindVotesByHash env0 = (\<lambda>st h. filter (\<lambda>v. vote_Block v = h) (st_votes st))"
  "AddVote env0 = (\<lambda>st v. Some (st\<lparr>st_votes := st_votes st @ [v]\<rparr>))"
  "GetEpochVotes env0 = (\<lambda>st. Some (st_votes st))"
  "ResetState env0 = (\<lambda>l h r. (False, l))"
  "ApplyBlockTxs env0 = (\<lambda>l txs r. ((False, None), l))"
  "FinalizeState env0 = (\<lambda>l h r. l)"
  "ProposeBlockTxs env0 = (\<lambda>l. ((0, [], False), l))"
  "MessageQueueSize env0 = 4"
  "Now env0 = 0"
  by (simp_all add: env0_def)

lemma GetTip_loop_Nil: "GetTip_loop env ch inc [] c = Some (Inr c)"
  by (subst GetTip_loop.simps) simp

lemma GetTip_loop_Cons:
  "GetTip_loop env ch inc (cur # rest) c =
     (if \<not> status_IsValid (eb_Status cur) then GetTip_loop env ch inc rest c
      else if \<not> inc \<and> eb_HasValidatorUpdate cur then GetTip_loop env ch inc rest c
      else (case pushChildren env ch (eb_Children cur) rest of
              Inl err \<Rightarrow> Some (Inl err)
            | Inr stack' \<Rightarrow>
                GetTip_loop env ch inc stack'
                  (if blk_Height (eb_Block cur) > blk_Height (eb_Block c) then cur else c)))"
  by (subst GetTip_loop.simps) simp

lemmas fixture_defs = blk_def ext_def vt_def noVote_def eng_def hash0_def majority_def
  setStatus_def setHasValidatorUpdate_def addBlock0_def cc_def genesis_def st_gen_def
  gp_upd_def p_upd_def p_plain_def st_upd_def e_upd_def tip2_def st_valid_def genesis0_def st_only_def
  fin1_def fin2_def st_fin_def

lemmas engine_defs = validateBlock_def shouldProposeByID_def eb_Hash_def IsEmpty_def
  status_IsValid_def status_IsCommitted_def broadcastVote_def createVote_def validateVote_def
  handleVote_def handleVoteInBlock_def finalizeBlock_def processCCBlock_def checkCC_def
  handleStandaloneVote_def GetTip_def GetTipToVote_def GetTipToExtend_def shouldVote_def
  shouldVoteByID_def vote_def handleBlock_def processMessage_def createProposal_def
  propose_def mainLoop_select_def GetTip_loop_Nil GetTip_loop_Cons Let_def

lemma u64_lt_max: "(x::u64) < - 1 \<longleftrightarrow> x \<noteq> - 1"
  by (simp add: word_order.not_eq_extremum)

lemma u64_le_succ: "(x::u64) \<le> y \<Longrightarrow> y \<noteq> - 1 \<Longrightarrow> x \<le> y + 1"
proof -
  assume a: "x \<le> y" and b: "y \<noteq> - 1"
  from b have "\<not> y + 1 \<le> y" by (simp add: inc_less_eq_self_iff_eq)
  then have "y < y + 1" by simp
  with a show ?thesis by simp
qed

lemma u64_succ_ne_max: "(v::u64) < - 2 \<Longrightarrow> v + 1 \<noteq> - 1"
proof
  assume a: "v < - 2" and b: "v + 1 = - 1"
  from b have "v = - 2" by (simp add: add_eq_0_iff)
  with a show False by simp
qed

lemma broadcastVote_frame:
  "epoch (broadcastVote env e v) = epoch e"
  "lastVote (broadcastVote env e v) = lastVote e"
  "store (broadcastVote env e v) = store e"
  "lastFinalizedBlock (broadcastVote env e v) = lastFinalizedBlock e"
  by (simp_all add: broadcastVote_def)

lemma foldl_broadcastVote_frame:
  "epoch (foldl (broadcastVote env) e vs) = epoch e"
  "lastVote (foldl (broadcastVote env) e vs) = lastVote e"
  "store (foldl (broadcastVote env) e vs) = store e"
  by (induction vs arbitrary: e) (simp_all add: broadcastVote_frame)

lemma foldl_broadcastVote_sent:
  "sent (foldl (broadcastVote env) e vs) = sent e @ map OutVote (filter (EncodeVote env) vs)"
  by (induction vs arbitrary: e) (simp_all add: broadcastVote_def)

lemma handleVote_lastVote:
  "handleVote env e v = Inr (e', ee) \<Longrightarrow> lastVote e' = lastVote e"
  by (auto simp: handleVote_def Let_def foldl_broadcastVote_frame
           split: if_splits option.splits)

lemma handleVote_epoch:
  "handleVote env e v = Inr (e', ee) \<Longrightarrow>
     epoch e' = epoch e \<or> (epoch e' = vote_Epoch v + 1 \<and> epoch e \<le> vote_Epoch v)"
  by (auto simp: handleVote_def Let_def foldl_broadcastVote_frame
           split: if_splits option.splits)

lemma handleVote_mono:
  "handleVote env e v = Inr (e', ee) \<Longrightarrow> vote_Epoch v \<noteq> - 1 \<Longrightarrow> epoch e \<le> epoch e'"
  using handleVote_epoch [of env e v e' ee] by (auto intro: u64_le_succ)

lemma finalizeBlock_epoch: "epoch (finalizeBlock env e b) = epoch e"
  by (simp add: finalizeBlock_def Let_def)

lemma processCCBlock_epoch: "epoch (processCCBlock env e b) = epoch e"
  by (simp add: processCCBlock_def Let_def finalizeBlock_epoch split: option.splits)

lemma checkCC_epoch: "epoch (checkCC env e h) = epoch e"
  by (simp add: checkCC_def Let_def processCCBlock_epoch split: option.splits)

lemma createVote_epoch: "createVote env e b = Inr v \<Longrightarrow> vote_Epoch v = epoch e"
  by (auto simp: createVote_def Let_def split: option.splits)

lemma sendVote_mono:
  assumes "createVote env e0 b = Inr v" and "epoch e1 = epoch e0" and "epoch e0 \<noteq> - 1"
    and "handleVote env (broadcastVote env e1 v) v = Inr (e', ee)"
  shows "epoch e0 \<le> epoch e'"
  using handleVote_mono [OF assms(4)] createVote_epoch [OF assms(1)] assms(2,3)
  by (simp add: broadcastVote_frame)

lemma sendVote_mono_repeat:
  "createVote env e b = Inr v \<Longrightarrow> epoch e \<noteq> - 1 \<Longrightarrow>
   handleVote env (broadcastVote env e v) v = Inr (e', ee) \<Longrightarrow> epoch e \<le> epoch e'"
  by (rule sendVote_mono [where ?e1.0 = e]) simp_all

lemma sendVote_mono_fresh:
  "createVote env e b = Inr v \<Longrightarrow> epoch e \<noteq> - 1 \<Longrightarrow>
   handleVote env (broadcastVote env (e\<lparr>lastVote := v\<rparr>) v) v = Inr (e', ee) \<Longrightarrow>
   epoch e \<le> epoch e'"
  by (rule sendVote_mono [where ?e1.0 = "e\<lparr>lastVote := v\<rparr>"]) simp_all

lemma vote_mono:
  assumes "vote env e = Inr e'" and "epoch e \<noteq> - 1"
  shows "epoch e \<le> epoch e'"
proof (cases "GetTipToVote env e")
  case (Inl err)
  with assms show ?thesis by (simp add: vote_def)
next
  case (Inr tip)
  show ?thesis
  proof (cases "shouldVote env (eb_Hash env tip)")
    case False
    with Inr assms show ?thesis by (simp add: vote_def)
  next
    case True
    with Inr assms show ?thesis
      by (auto simp: vote_def Let_def split: if_splits option.splits sum.splits
               intro: sendVote_mono_repeat sendVote_mono_fresh)
  qed
qed

lemma handleBlock_votes_mono:
  "handleBlock_votes env e vs = Inr e' \<Longrightarrow> \<forall>v\<in>set vs. vote_Epoch v < - 2 \<Longrightarrow>
     epoch e \<noteq> - 1 \<Longrightarrow> epoch e \<le> epoch e' \<and> epoch e' \<noteq> - 1"
proof (induction vs arbitrary: e)
  case Nil
  then show ?case by simp
next
  case (Cons v vs)
  from Cons.prems(1) obtain e1 ee where
    h: "handleVote env e v = Inr (e1, ee)" and r: "handleBlock_votes env e1 vs = Inr e'"
    by (auto simp: handleVoteInBlock_def split: sum.splits)
  from Cons.prems(2) have v: "vote_Epoch v < - 2" by simp
  then have v1: "vote_Epoch v \<noteq> - 1" and v2: "vote_Epoch v + 1 \<noteq> - 1"
    by (auto dest: u64_succ_ne_max)
  from handleVote_mono [OF h v1] have m: "epoch e \<le> epoch e1" .
  from handleVote_epoch [OF h] Cons.prems(3) v2 have n: "epoch e1 \<noteq> - 1" by auto
  from Cons.IH [OF r _ n] Cons.prems(2) m show ?case by auto
qed



lemma handleBlock_mono:
  assumes "handleBlock env e b = Inr e'"
    and "\<forall>v\<in>set (cc_Votes (blk_HCC b)). vote_Epoch v < - 2"
    and "epoch e \<noteq> - 1"
  shows "epoch e \<le> epoch e'"
proof -
  from assms(1) obtain parent where
    p: "FindBlock env (store e) (blk_Parent b) = Some parent"
    by (auto simp: handleBlock_def split: option.splits)
  show ?thesis
  proof (cases "validateBlock env e b parent")
    case False
    with p assms(1) show ?thesis by (auto simp: handleBlock_def)
  next
    case True
    with p assms(1) obtain e1 where
      l: "handleBlock_votes env e (cc_Votes (blk_HCC b)) = Inr e1"
      by (auto simp: handleBlock_def split: sum.splits)
    from handleBlock_votes_mono [OF l assms(2,3)]
    have m: "epoch e \<le> epoch e1" and n: "epoch e1 \<noteq> - 1" by simp_all
    from p True l assms(1) have
      "epoch e' = epoch e1 \<or> (\<exists>e6. epoch e6 = epoch e1 \<and> vote env e6 = Inr e')"
      by (auto simp: handleBlock_def Let_def checkCC_epoch split: if_splits)
    then show ?thesis
    proof
      assume "epoch e' = epoch e1"
      with m show ?thesis by simp
    next
      assume "\<exists>e6. epoch e6 = epoch e1 \<and> vote env e6 = Inr e'"
      then obtain e6 where a: "epoch e6 = epoch e1" and b: "vote env e6 = Inr e'" by blast
      from vote_mono [OF b] a n have "epoch e1 \<le> epoch e'" by simp
      with m show ?thesis by simp
    qed
  qed
qed

lemma createProposal_mono:
  assumes "createProposal env e = Inr (e', r)"
    and "\<forall>v\<in>set (UniqueVoter env (FindVotesByHash env (store e)
            (eb_Hash env (highestCCBlock e)))). vote_Epoch v < - 2"
    and "epoch e \<noteq> - 1"
  shows "epoch e \<le> epoch e'"
proof -
  from assms(1) have
    "epoch e' = epoch e \<or>
     (\<exists>e2 block. epoch e2 = epoch e \<and>
        cc_Votes (blk_HCC block) = UniqueVoter env (FindVotesByHash env (store e)
            (eb_Hash env (highestCCBlock e))) \<and>
        handleBlock env e2 block = Inr e')"
    by (auto simp: createProposal_def Let_def
             split: sum.splits if_splits option.splits)
  then show ?thesis
  proof
    assume "epoch e' = epoch e"
    then show ?thesis by simp
  next
    assume "\<exists>e2 block. epoch e2 = epoch e \<and>
        cc_Votes (blk_HCC block) = UniqueVoter env (FindVotesByHash env (store e)
            (eb_Hash env (highestCCBlock e))) \<and>
        handleBlock env e2 block = Inr e'"
    then obtain e2 block where a: "epoch e2 = epoch e"
      and b: "cc_Votes (blk_HCC block) = UniqueVoter env (FindVotesByHash env (store e)
            (eb_Hash env (highestCCBlock e)))"
      and c: "handleBlock env e2 block = Inr e'" by blast
    from handleBlock_mono [OF c] a b assms(2,3) show ?thesis by simp
  qed
qed

lemma propose_mono:
  assumes "propose env e = Inr e'"
    and "\<forall>v\<in>set (UniqueVoter env (FindVotesByHash env (store e)
            (eb_Hash env (highestCCBlock e)))). vote_Epoch v < - 2"
    and "epoch e \<noteq> - 1"
  shows "epoch e \<le> epoch e'"
proof -
  from assms(1) have
    "epoch e' = epoch e \<or> (\<exists>e1 r. epoch e' = epoch e1 \<and> createProposal env e = Inr (e1, r))"
    by (auto simp: propose_def Let_def split: sum.splits if_splits option.splits)
  then show ?thesis
    using createProposal_mono [OF _ assms(2,3)] by auto
qed



lemma handleVote_sent:
  "handleVote env e v = Inr (e', ee) \<Longrightarrow> \<exists>xs. sent e' = sent e @ xs"
  by (auto simp: handleVote_def Let_def foldl_broadcastVote_sent
           split: if_splits option.splits)

lemma foldl_broadcastVote_eq:
  "foldl (broadcastVote env) e vs =
     e\<lparr>sent := sent e @ map OutVote (filter (EncodeVote env) vs)\<rparr>"
  by (induction vs arbitrary: e) (simp_all add: broadcastVote_def)

text \<open>
  The only caller of \<^verbatim>\<open>finalizeBlock\<close> is \<^verbatim>\<open>processCCBlock\<close>, behind the test that the parent's
  status is Committed: for a parent that the store holds as Finalized it finalizes nothing.
\<close>

lemma processCCBlock_Finalized_parent:
  assumes "FindBlock env (CommitBlock env (store e) (eb_Hash env ccBlock))
             (blk_Parent (eb_Block ccBlock)) = Some parent"
    and "eb_Status parent = Finalized"
  shows "lastFinalizedBlock (processCCBlock env e ccBlock) = lastFinalizedBlock e"
    and "ledger (processCCBlock env e ccBlock) = ledger e"
    and "finalizedBlocks (processCCBlock env e ccBlock) = finalizedBlocks e"
  using assms by (simp_all add: processCCBlock_def Let_def status_IsCommitted_def)

section \<open>Block validation\<close>



text \<open>
  Claim C2 says that \<^verbatim>\<open>validateBlock(b, p)\<close> returns false unless the votes of \<open>b\<close>'s HCC form a
  majority under the validator set of the HCC's block hash.  The code judges them under the
  set it obtains for \<open>b\<close>'s own hash, whereas \<^verbatim>\<open>checkCC\<close> and \<^verbatim>\<open>shouldVoteByID\<close> take the set
  of the block that the votes are for.  With a manager that answers \<open>[1]\<close> for \<open>b\<close> (hash 4)
  and \<open>[2, 3, 4]\<close> for every other hash, a block whose HCC (hash 3) carries the single vote of
  validator 1 is accepted, where the grandparent's validator update requires a proof,
  although that vote is no majority under the set of the HCC's hash.
\<close>

theorem validateBlock_hcc_validators_failing_input:
  "validateBlock env_split e_upd (blk 3 3 (cc 3 [vt 3 2 1 2])) p_upd \<and>
   Hash env_split (blk 3 3 (cc 3 [vt 3 2 1 2])) = 4 \<and>
   cc_BlockHash (blk_HCC (blk 3 3 (cc 3 [vt 3 2 1 2]))) = 3 \<and>
   GetValidatorSet env_split 4 = [1] \<and> GetValidatorSet env_split 3 = [2, 3, 4] \<and>
   \<not> IsValid env_split (blk_HCC (blk 3 3 (cc 3 [vt 3 2 1 2])))
       (GetValidatorSet env_split (cc_BlockHash (blk_HCC (blk 3 3 (cc 3 [vt 3 2 1 2]))))) \<and>
   \<not> IsProven env_split (blk_HCC (blk 3 3 (cc 3 [vt 3 2 1 2])))
       (GetValidatorSet env_split (cc_BlockHash (blk_HCC (blk 3 3 (cc 3 [vt 3 2 1 2]))))) \<and>
   \<not> HasMajority env_split
       (GetValidatorSet env_split (cc_BlockHash (blk_HCC (blk 3 3 (cc 3 [vt 3 2 1 2])))))
       (cc_Votes (blk_HCC (blk 3 3 (cc 3 [vt 3 2 1 2]))))"
  by (simp add: engine_defs fixture_defs env_split_def)

theorem validateBlock_hcc_validators_failing_input_witness:
  "validateBlock env_split e_upd (blk 3 3 (cc 3 [vt 3 2 1 2])) p_upd \<and>
   \<not> majority [2, 3, 4] [vt 3 2 1 2]"
  using validateBlock_hcc_validators_failing_input
  by (simp add: fixture_defs env_split_def)

section \<open>Finalization and the CC check\<close>

text \<open>
  Claim C6, as stated: \<^verbatim>\<open>finalizeBlock(b)\<close> is a no-op whenever \<open>b\<close> is already finalized.  The
  code skips a block only when its hash is the hash of the last finalized block.  With the
  block at height 2 as last finalized block, a call on the block at height 1, which the
  store holds as Finalized, moves \<open>lastFinalizedBlock\<close> back to height 1 and puts the block
  on the finalized-blocks channel again.
\<close>

theorem finalizeBlock_finalized_counterexample:
  "eb_Status fin1 = Finalized \<and>
   FindBlock env0 (store (eng st_fin 3 noVote fin2 fin2)) (eb_Hash env0 fin1) = Some fin1 \<and>
   \<not> stopped (eng st_fin 3 noVote fin2 fin2) \<and>
   finalizeBlock env0 (eng st_fin 3 noVote fin2 fin2) fin1 =
     (eng st_fin 3 noVote fin2 fin2)
       \<lparr>finalizedBlocks := [eb_Block fin1], lastFinalizedBlock := fin1\<rparr> \<and>
   finalizeBlock env0 (eng st_fin 3 noVote fin2 fin2) fin1 \<noteq> eng st_fin 3 noVote fin2 fin2 \<and>
   blk_Height (eb_Block (lastFinalizedBlock (eng st_fin 3 noVote fin2 fin2))) = 2 \<and>
   blk_Height (eb_Block (lastFinalizedBlock
     (finalizeBlock env0 (eng st_fin 3 noVote fin2 fin2) fin1))) = 1"
  by (simp add: engine_defs fixture_defs)

text \<open>
  Claim C6, amended: \<^verbatim>\<open>finalizeBlock(b)\<close> leaves the whole engine state (consensus state,
  ledger, store, output channel) unchanged whenever the engine is stopped or \<open>b\<close>'s hash is
  the hash of the last finalized block; and for every block, a second call right after the
  first changes nothing.
\<close>

theorem finalizeBlock_noop:
  "(stopped e \<or> eb_Hash env block = eb_Hash env (lastFinalizedBlock e)
      \<longrightarrow> finalizeBlock env e block = e) \<and>
   finalizeBlock env (finalizeBlock env e block) block = finalizeBlock env e block"
  by (simp add: finalizeBlock_def Let_def)

theorem finalizeBlock_noop_witness:
  "finalizeBlock env0 ((eng st_gen 0 noVote genesis genesis)\<lparr>stopped := True\<rparr>) p_upd =
     (eng st_gen 0 noVote genesis genesis)\<lparr>stopped := True\<rparr> \<and>
   finalizeBlock env0 (eng st_gen 0 noVote genesis genesis) genesis =
     eng st_gen 0 noVote genesis genesis \<and>
   finalizeBlock env0 (eng st_gen 0 noVote genesis genesis) p_upd \<noteq>
     eng st_gen 0 noVote genesis genesis \<and>
   finalizeBlock env0 (finalizeBlock env0 (eng st_gen 0 noVote genesis genesis) p_upd) p_upd =
     finalizeBlock env0 (eng st_gen 0 noVote genesis genesis) p_upd"
  using finalizeBlock_noop [of "(eng st_gen 0 noVote genesis genesis)\<lparr>stopped := True\<rparr>" env0 p_upd]
        finalizeBlock_noop [of "eng st_gen 0 noVote genesis genesis" env0 genesis]
        finalizeBlock_noop [of "eng st_gen 0 noVote genesis genesis" env0 p_upd]
  by (simp add: engine_defs fixture_defs)

text \<open>
  Claim C10.  \<^verbatim>\<open>checkCC(hash)\<close> leaves the engine state unchanged when the hash is empty, when
  the store has no block for it, or when the block's height is below the height of the
  highest CC block.
\<close>

theorem checkCC_noop:
  "IsEmpty h \<or> FindBlock env (store e) h = None \<or>
   (\<exists>block. FindBlock env (store e) h = Some block \<and>
      blk_Height (eb_Block block) < blk_Height (eb_Block (highestCCBlock e)))
   \<Longrightarrow> checkCC env e h = e"
  by (auto simp: checkCC_def Let_def)

theorem checkCC_noop_witness:
  "IsEmpty 0 \<and> checkCC env0 (eng st_upd 3 noVote p_upd gp_upd) 0 = eng st_upd 3 noVote p_upd gp_upd \<and>
   FindBlock env0 (store (eng st_upd 3 noVote p_upd gp_upd)) 9 = None \<and>
   checkCC env0 (eng st_upd 3 noVote p_upd gp_upd) 9 = eng st_upd 3 noVote p_upd gp_upd \<and>
   FindBlock env0 (store (eng st_upd 3 noVote p_upd gp_upd)) 2 = Some gp_upd \<and>
   blk_Height (eb_Block gp_upd) < blk_Height (eb_Block (highestCCBlock (eng st_upd 3 noVote p_upd gp_upd))) \<and>
   checkCC env0 (eng st_upd 3 noVote p_upd gp_upd) 2 = eng st_upd 3 noVote p_upd gp_upd"
  using checkCC_noop [of 0 env0 "eng st_upd 3 noVote p_upd gp_upd"]
        checkCC_noop [of 9 env0 "eng st_upd 3 noVote p_upd gp_upd"]
        checkCC_noop [of 2 env0 "eng st_upd 3 noVote p_upd gp_upd"]
  by (simp add: IsEmpty_def fixture_defs)

section \<open>Messages\<close>

text \<open>
  Claim C9.  For a block message \<^verbatim>\<open>processMessage\<close> returns \<open>endEpoch = false\<close> together with the
  state \<^verbatim>\<open>handleBlock\<close> leaves, also when a vote of the block's HCC advanced the epoch; for a
  vote message it returns the \<open>endEpoch\<close> of \<^verbatim>\<open>handleVote\<close>.  So a pass of the event loop ends
  the epoch iteration only on the epoch timer or on a vote message whose \<^verbatim>\<open>handleVote\<close>
  signals \<open>endEpoch\<close>.
\<close>

theorem processMessage_block_no_endEpoch:
  "(processMessage env e (MsgBlock b) = Inr (e', endEpoch) \<longrightarrow>
      \<not> endEpoch \<and> handleBlock env e b = Inr e') \<and>
   (processMessage env e (MsgVote v) = Inr (e', endEpoch) \<longrightarrow>
      (\<exists>e1. handleVote env e v = Inr (e1, endEpoch))) \<and>
   (mainLoop_select env e ev = Inr (e', BreakEpoch) \<longrightarrow>
      ev = EpochTimer \<or>
      (\<exists>v e1. ev = Incoming (MsgVote v) \<and> handleVote env e v = Inr (e1, True)))"
  by (auto simp: processMessage_def handleStandaloneVote_def mainLoop_select_def
           split: sum.splits event.splits message.splits if_splits)

theorem processMessage_block_no_endEpoch_witness:
  "(\<exists>e1. handleVoteInBlock env0 (eng st_gen 0 noVote genesis genesis) (vt 1 0 1 3) = Inr (e1, True)) \<and>
   (\<exists>e'. processMessage env0 (eng st_gen 0 noVote genesis genesis)
        (MsgBlock (blk 1 1 (cc 1 [vt 1 0 1 3]))) = Inr (e', False) \<and>
      handleBlock env0 (eng st_gen 0 noVote genesis genesis) (blk 1 1 (cc 1 [vt 1 0 1 3])) = Inr e' \<and>
      mainLoop_select env0 (eng st_gen 0 noVote genesis genesis)
        (Incoming (MsgBlock (blk 1 1 (cc 1 [vt 1 0 1 3])))) = Inr (e', Continue) \<and>
      epoch (eng st_gen 0 noVote genesis genesis) = 0 \<and> epoch e' = 4) \<and>
   (\<exists>e2. processMessage env0 (eng st_gen 0 noVote genesis genesis) (MsgVote (vt 1 0 1 3))
        = Inr (e2, True) \<and>
      mainLoop_select env0 (eng st_gen 0 noVote genesis genesis) (Incoming (MsgVote (vt 1 0 1 3)))
        = Inr (e2, BreakEpoch) \<and>
      (\<exists>e1. handleVote env0 (eng st_gen 0 noVote genesis genesis) (vt 1 0 1 3) = Inr (e1, True)))"
proof -
  have a: "\<exists>e1. handleVoteInBlock env0 (eng st_gen 0 noVote genesis genesis) (vt 1 0 1 3)
             = Inr (e1, True)"
    by (simp add: engine_defs fixture_defs)
  have "\<exists>e'. processMessage env0 (eng st_gen 0 noVote genesis genesis)
          (MsgBlock (blk 1 1 (cc 1 [vt 1 0 1 3]))) = Inr (e', False) \<and> epoch e' = 4"
    by (simp add: engine_defs fixture_defs u64_lt_max)
  then obtain e' where
    b: "processMessage env0 (eng st_gen 0 noVote genesis genesis)
          (MsgBlock (blk 1 1 (cc 1 [vt 1 0 1 3]))) = Inr (e', False)"
    and c: "epoch e' = 4" by blast
  have c0: "epoch (eng st_gen 0 noVote genesis genesis) = 0"
    by (simp add: eng_def)
  have "\<exists>e2. processMessage env0 (eng st_gen 0 noVote genesis genesis)
          (MsgVote (vt 1 0 1 3)) = Inr (e2, True)"
    by (simp add: engine_defs fixture_defs)
  then obtain e2 where
    d: "processMessage env0 (eng st_gen 0 noVote genesis genesis)
          (MsgVote (vt 1 0 1 3)) = Inr (e2, True)" by blast
  from b have m1: "mainLoop_select env0 (eng st_gen 0 noVote genesis genesis)
        (Incoming (MsgBlock (blk 1 1 (cc 1 [vt 1 0 1 3])))) = Inr (e', Continue)"
    by (simp add: mainLoop_select_def)
  from d have m2: "mainLoop_select env0 (eng st_gen 0 noVote genesis genesis)
        (Incoming (MsgVote (vt 1 0 1 3))) = Inr (e2, BreakEpoch)"
    by (simp add: mainLoop_select_def)
  from processMessage_block_no_endEpoch [THEN conjunct1, rule_format, OF b]
  have g: "handleBlock env0 (eng st_gen 0 noVote genesis genesis)
             (blk 1 1 (cc 1 [vt 1 0 1 3])) = Inr e'" by simp
  from processMessage_block_no_endEpoch
         [THEN conjunct2, THEN conjunct2, rule_format, OF m2]
  have h: "\<exists>e1. handleVote env0 (eng st_gen 0 noVote genesis genesis) (vt 1 0 1 3)
             = Inr (e1, True)" by auto
  from a b c c0 d g h m1 m2 show ?thesis by blast
qed


section \<open>Vote casting\<close>

text \<open>
  Claim C3, as stated: the last vote is repeated whenever \<open>lastVote.height \<ge> tip.height\<close>.
  On a fresh node the last vote has height 0 and the tip is the genesis block of height 0,
  so the comparison holds; the engine nevertheless casts a fresh vote on the tip and records
  it as its last vote.
\<close>

theorem vote_repeat_counterexample:
  "GetTipToVote env0 (eng st_gen 0 noVote genesis genesis) = Inr genesis \<and>
   shouldVote env0 (eb_Hash env0 genesis) \<and>
   vote_Height (lastVote (eng st_gen 0 noVote genesis genesis))
     \<ge> blk_Height (eb_Block genesis) \<and>
   vote env0 (eng st_gen 0 noVote genesis genesis) =
     Inr ((eng st_gen 0 noVote genesis genesis)
            \<lparr>store := st_gen\<lparr>st_votes := [vt 1 0 1 0]\<rparr>, sent := [OutVote (vt 1 0 1 0)],
             epoch := 1, lastVote := vt 1 0 1 0\<rparr>) \<and>
   vt 1 0 1 0 \<noteq> lastVote (eng st_gen 0 noVote genesis genesis)"
  by (simp add: engine_defs fixture_defs)

text \<open>
  Claim C3, amended: for a tip whose validator set contains this node, \<^verbatim>\<open>vote\<close> repeats the
  last vote (it re-signs the block stored under \<open>lastVote.Block\<close> at the current epoch and
  leaves \<open>lastVote\<close> as it is) if and only if a last vote exists (\<open>lastVote.height \<noteq> 0\<close>) and
  either \<open>lastVote.height \<ge> tip.height\<close> or the tip's HCC names another block than the local
  highest CC block; otherwise it signs a vote on the tip and records it as \<open>lastVote\<close>.  In
  both cases the vote is broadcast and handled locally.
\<close>

theorem vote_repeat_or_fresh:
  assumes "GetTipToVote env e = Inr tip" and "shouldVote env (eb_Hash env tip)"
  shows "(vote_Height (lastVote e) \<noteq> 0 \<and>
          (vote_Height (lastVote e) \<ge> blk_Height (eb_Block tip) \<or>
           cc_BlockHash (blk_HCC (eb_Block tip)) \<noteq> eb_Hash env (highestCCBlock e))
          \<longrightarrow> vote env e =
                (case FindBlock env (store e) (vote_Block (lastVote e)) of
                   None \<Rightarrow> Inl Panic
                 | Some block \<Rightarrow>
                     (case createVote env e (eb_Block block) of
                        Inl err \<Rightarrow> Inl err
                      | Inr v \<Rightarrow>
                          (case handleVote env (broadcastVote env e v) v of
                             Inl err \<Rightarrow> Inl err
                           | Inr (e2, endEpoch) \<Rightarrow> Inr e2)))) \<and>
         (\<not> (vote_Height (lastVote e) \<noteq> 0 \<and>
             (vote_Height (lastVote e) \<ge> blk_Height (eb_Block tip) \<or>
              cc_BlockHash (blk_HCC (eb_Block tip)) \<noteq> eb_Hash env (highestCCBlock e)))
          \<longrightarrow> vote env e =
                (case createVote env e (eb_Block tip) of
                   Inl err \<Rightarrow> Inl err
                 | Inr v \<Rightarrow>
                     (case handleVote env (broadcastVote env (e\<lparr>lastVote := v\<rparr>) v) v of
                        Inl err \<Rightarrow> Inl err
                      | Inr (e2, endEpoch) \<Rightarrow> Inr e2)))"
  using assms
  by (auto simp: vote_def Let_def split: option.splits sum.splits)

theorem vote_repeat_or_fresh_witness:
  "GetTipToVote env0 (eng st_valid 5 (vt 3 2 1 1) genesis genesis) = Inr tip2 \<and>
   shouldVote env0 (eb_Hash env0 tip2) \<and>
   vote_Height (vt 3 2 1 1) \<noteq> 0 \<and> vote_Height (vt 3 2 1 1) \<ge> blk_Height (eb_Block tip2) \<and>
   vote env0 (eng st_valid 5 (vt 3 2 1 1) genesis genesis) =
     Inr ((eng st_valid 5 (vt 3 2 1 1) genesis genesis)
            \<lparr>store := st_valid\<lparr>st_votes := [vt 3 2 1 5]\<rparr>, sent := [OutVote (vt 3 2 1 5)],
             epoch := 6\<rparr>) \<and>
   GetTipToVote env0 (eng st_valid 5 noVote genesis genesis) = Inr tip2 \<and>
   vote_Height noVote = 0 \<and>
   vote env0 (eng st_valid 5 noVote genesis genesis) =
     Inr ((eng st_valid 5 noVote genesis genesis)
            \<lparr>store := st_valid\<lparr>st_votes := [vt 3 2 1 5]\<rparr>, sent := [OutVote (vt 3 2 1 5)],
             epoch := 6, lastVote := vt 3 2 1 5\<rparr>)"
proof -
  have a: "GetTipToVote env0 (eng st_valid 5 (vt 3 2 1 1) genesis genesis) = Inr tip2"
    by (simp add: engine_defs fixture_defs)
  have b: "GetTipToVote env0 (eng st_valid 5 noVote genesis genesis) = Inr tip2"
    by (simp add: engine_defs fixture_defs)
  have c: "shouldVote env0 (eb_Hash env0 tip2)"
    by (simp add: engine_defs fixture_defs)
  from a b c vote_repeat_or_fresh [OF a c] vote_repeat_or_fresh [OF b c]
  show ?thesis
    by (simp add: engine_defs fixture_defs)
qed

text \<open>
  Claim C8.  When \<^verbatim>\<open>vote\<close> repeats (a last vote exists and its height is at least the tip's, or
  the tip's HCC differs from the local highest CC block) and returns, the recorded
  \<open>lastVote\<close> is unchanged; the vote sent is the one signed at the current epoch for the
  block stored under \<open>lastVote.Block\<close>, it is broadcast (when it encodes) and handled locally.
\<close>

theorem vote_repeat_keeps_lastVote:
  assumes "GetTipToVote env e = Inr tip" and "shouldVote env (eb_Hash env tip)"
    and "vote_Height (lastVote e) \<noteq> 0"
    and "vote_Height (lastVote e) \<ge> blk_Height (eb_Block tip) \<or>
         cc_BlockHash (blk_HCC (eb_Block tip)) \<noteq> eb_Hash env (highestCCBlock e)"
    and "vote env e = Inr e'"
  shows "lastVote e' = lastVote e \<and>
         (\<exists>block v endEpoch.
            FindBlock env (store e) (vote_Block (lastVote e)) = Some block \<and>
            createVote env e (eb_Block block) = Inr v \<and>
            vote_Block v = eb_Hash env block \<and> vote_Epoch v = epoch e \<and>
            handleVote env (broadcastVote env e v) v = Inr (e', endEpoch) \<and>
            (EncodeVote env v \<longrightarrow> (\<exists>xs. sent e' = sent e @ OutVote v # xs)))"
proof -
  from assms obtain block v endEpoch where
    f: "FindBlock env (store e) (vote_Block (lastVote e)) = Some block"
    and c: "createVote env e (eb_Block block) = Inr v"
    and h: "handleVote env (broadcastVote env e v) v = Inr (e', endEpoch)"
    by (auto simp: vote_def Let_def split: option.splits sum.splits if_splits)
  from handleVote_lastVote [OF h] have l: "lastVote e' = lastVote e"
    by (simp add: broadcastVote_frame)
  from c have b: "vote_Block v = eb_Hash env block" and ep: "vote_Epoch v = epoch e"
    by (auto simp: createVote_def eb_Hash_def Let_def split: option.splits)
  from handleVote_sent [OF h] have
    s: "EncodeVote env v \<longrightarrow> (\<exists>xs. sent e' = sent e @ OutVote v # xs)"
    by (auto simp: broadcastVote_def)
  from f c h l b ep s show ?thesis by blast
qed

theorem vote_repeat_keeps_lastVote_witness:
  "GetTipToVote env0 (eng st_valid 5 (vt 2 1 1 1) genesis genesis) = Inr tip2 \<and>
   shouldVote env0 (eb_Hash env0 tip2) \<and>
   vote_Height (vt 2 1 1 1) \<noteq> 0 \<and>
   \<not> vote_Height (vt 2 1 1 1) \<ge> blk_Height (eb_Block tip2) \<and>
   cc_BlockHash (blk_HCC (eb_Block tip2)) \<noteq> eb_Hash env0 genesis \<and>
   vote env0 (eng st_valid 5 (vt 2 1 1 1) genesis genesis) =
     Inr ((eng st_valid 5 (vt 2 1 1 1) genesis genesis)
            \<lparr>store := st_valid\<lparr>st_votes := [vt 2 1 1 5]\<rparr>, sent := [OutVote (vt 2 1 1 5)],
             epoch := 6\<rparr>) \<and>
   lastVote ((eng st_valid 5 (vt 2 1 1 1) genesis genesis)
            \<lparr>store := st_valid\<lparr>st_votes := [vt 2 1 1 5]\<rparr>, sent := [OutVote (vt 2 1 1 5)],
             epoch := 6\<rparr>) = vt 2 1 1 1"
proof -
  have a: "GetTipToVote env0 (eng st_valid 5 (vt 2 1 1 1) genesis genesis) = Inr tip2"
    by (simp add: engine_defs fixture_defs)
  have c: "shouldVote env0 (eb_Hash env0 tip2)"
    by (simp add: engine_defs fixture_defs)
  have d: "vote_Height (lastVote (eng st_valid 5 (vt 2 1 1 1) genesis genesis)) \<noteq> 0"
    by (simp add: fixture_defs)
  have f: "vote_Height (lastVote (eng st_valid 5 (vt 2 1 1 1) genesis genesis))
             \<ge> blk_Height (eb_Block tip2) \<or>
           cc_BlockHash (blk_HCC (eb_Block tip2))
             \<noteq> eb_Hash env0 (highestCCBlock (eng st_valid 5 (vt 2 1 1 1) genesis genesis))"
    by (simp add: engine_defs fixture_defs)
  have g: "vote env0 (eng st_valid 5 (vt 2 1 1 1) genesis genesis) =
     Inr ((eng st_valid 5 (vt 2 1 1 1) genesis genesis)
            \<lparr>store := st_valid\<lparr>st_votes := [vt 2 1 1 5]\<rparr>, sent := [OutVote (vt 2 1 1 5)],
             epoch := 6\<rparr>)"
    by (simp add: engine_defs fixture_defs)
  from vote_repeat_keeps_lastVote [OF a c d f g] have
    h: "lastVote ((eng st_valid 5 (vt 2 1 1 1) genesis genesis)
            \<lparr>store := st_valid\<lparr>st_votes := [vt 2 1 1 5]\<rparr>, sent := [OutVote (vt 2 1 1 5)],
             epoch := 6\<rparr>) = lastVote (eng st_valid 5 (vt 2 1 1 1) genesis genesis)"
    by (rule conjunct1)
  have i: "lastVote (eng st_valid 5 (vt 2 1 1 1) genesis genesis) = vt 2 1 1 1"
    by (simp add: eng_def)
  have j: "vote_Height (vt 2 1 1 1) \<noteq> 0 \<and>
           \<not> vote_Height (vt 2 1 1 1) \<ge> blk_Height (eb_Block tip2) \<and>
           cc_BlockHash (blk_HCC (eb_Block tip2)) \<noteq> eb_Hash env0 genesis"
    by (simp add: engine_defs fixture_defs word_le_nat_alt)
  from a c g h i j show ?thesis by simp
qed


section \<open>Vote handling and the epoch\<close>

text \<open>
  Claim C4, as stated: the epoch-advance check runs for every vote, also for a vote whose
  epoch is below the engine's.  With the engine at epoch 3, a valid vote of epoch 1 by the
  only validator is stored, the votes of epoch at least 1 are a majority of the next
  validator set, and yet the epoch stays 3 and \<open>endEpoch\<close> is false.
\<close>

theorem handleVote_stale_epoch_counterexample:
  "vote_Validate env0 (vt 1 0 1 1) \<and>
   AddVote env0 (store (eng st_gen 3 noVote genesis genesis)) (vt 1 0 1 1)
     = Some (st_gen\<lparr>st_votes := [vt 1 0 1 1]\<rparr>) \<and>
   GetEpochVotes env0 (st_gen\<lparr>st_votes := [vt 1 0 1 1]\<rparr>) = Some [vt 1 0 1 1] \<and>
   HasMajority env0
     (GetNextValidatorSet env0 (eb_Hash env0 (lastFinalizedBlock (eng st_gen 3 noVote genesis genesis))))
     [vt 1 0 1 1] \<and>
   handleVote env0 (eng st_gen 3 noVote genesis genesis) (vt 1 0 1 1) =
     Inr ((eng st_gen 3 noVote genesis genesis)\<lparr>store := st_gen\<lparr>st_votes := [vt 1 0 1 1]\<rparr>\<rparr>,
          False) \<and>
   epoch ((eng st_gen 3 noVote genesis genesis)\<lparr>store := st_gen\<lparr>st_votes := [vt 1 0 1 1]\<rparr>\<rparr>)
     \<noteq> vote_Epoch (vt 1 0 1 1) + 1"
  by (simp add: engine_defs fixture_defs word_le_nat_alt)

text \<open>
  Claim C4, amended: for a valid vote \<open>v\<close> that the state stores, the epoch-advance check
  runs only when \<open>v.epoch\<close> is at least the engine's epoch.  Then the engine collects the
  known epoch votes whose epoch is at least \<open>v.epoch\<close>; if the next validator set derived
  from the last finalized block has a majority among them, it sets the epoch to
  \<open>v.epoch + 1\<close> and returns \<open>endEpoch = true\<close>, after rebroadcasting the collected votes when
  \<open>v.epoch + 1 > epoch + 1\<close> (in \<^verbatim>\<open>uint64\<close>); otherwise, and for every vote with \<open>v.epoch\<close>
  below the engine's epoch, the vote is only stored and \<open>endEpoch\<close> is false.
\<close>

theorem handleVote_epoch_advance:
  assumes "validateVote env v" and "AddVote env (store e) v = Some st"
  shows
    "(vote_Epoch v < epoch e \<longrightarrow> handleVote env e v = Inr (e\<lparr>store := st\<rparr>, False)) \<and>
     (vote_Epoch v \<ge> epoch e \<and> GetEpochVotes env st = Some allEpochVotes \<longrightarrow>
        handleVote env e v =
          (if HasMajority env (GetNextValidatorSet env (eb_Hash env (lastFinalizedBlock e)))
                (filter (\<lambda>u. vote_Epoch u \<ge> vote_Epoch v) allEpochVotes)
           then Inr (e\<lparr>store := st,
                       sent := sent e @
                         (if vote_Epoch v + 1 > epoch e + 1
                          then map OutVote (filter (EncodeVote env)
                                 (filter (\<lambda>u. vote_Epoch u \<ge> vote_Epoch v) allEpochVotes))
                          else []),
                       epoch := vote_Epoch v + 1\<rparr>, True)
           else Inr (e\<lparr>store := st\<rparr>, False)))"
  using assms
  by (auto simp: handleVote_def Let_def foldl_broadcastVote_eq)

theorem handleVote_epoch_advance_witness:
  "validateVote env0 (vt 1 0 1 3) \<and>
   AddVote env0 (store (eng st_gen 1 noVote genesis genesis)) (vt 1 0 1 3)
     = Some (st_gen\<lparr>st_votes := [vt 1 0 1 3]\<rparr>) \<and>
   vote_Epoch (vt 1 0 1 3) \<ge> epoch (eng st_gen 1 noVote genesis genesis) \<and>
   GetEpochVotes env0 (st_gen\<lparr>st_votes := [vt 1 0 1 3]\<rparr>) = Some [vt 1 0 1 3] \<and>
   handleVote env0 (eng st_gen 1 noVote genesis genesis) (vt 1 0 1 3) =
     Inr ((eng st_gen 1 noVote genesis genesis)
            \<lparr>store := st_gen\<lparr>st_votes := [vt 1 0 1 3]\<rparr>, sent := [OutVote (vt 1 0 1 3)],
             epoch := 4\<rparr>, True) \<and>
   vote_Epoch (vt 1 0 1 3) < epoch (eng st_gen 5 noVote genesis genesis) \<and>
   handleVote env0 (eng st_gen 5 noVote genesis genesis) (vt 1 0 1 3) =
     Inr ((eng st_gen 5 noVote genesis genesis)\<lparr>store := st_gen\<lparr>st_votes := [vt 1 0 1 3]\<rparr>\<rparr>,
          False)"
proof -
  have a: "validateVote env0 (vt 1 0 1 3)"
    by (simp add: engine_defs fixture_defs)
  have b: "AddVote env0 (store (eng st_gen 1 noVote genesis genesis)) (vt 1 0 1 3)
             = Some (st_gen\<lparr>st_votes := [vt 1 0 1 3]\<rparr>)"
    by (simp add: fixture_defs)
  have c: "AddVote env0 (store (eng st_gen 5 noVote genesis genesis)) (vt 1 0 1 3)
             = Some (st_gen\<lparr>st_votes := [vt 1 0 1 3]\<rparr>)"
    by (simp add: fixture_defs)
  have d: "vote_Epoch (vt 1 0 1 3) \<ge> epoch (eng st_gen 1 noVote genesis genesis) \<and>
           GetEpochVotes env0 (st_gen\<lparr>st_votes := [vt 1 0 1 3]\<rparr>) = Some [vt 1 0 1 3] \<and>
           vote_Epoch (vt 1 0 1 3) < epoch (eng st_gen 5 noVote genesis genesis)"
    by (simp add: fixture_defs word_le_nat_alt)
  from a b c d
       handleVote_epoch_advance [OF a b, of "[vt 1 0 1 3]"]
       handleVote_epoch_advance [OF a c, of "[vt 1 0 1 3]"]
  show ?thesis
    by (simp add: engine_defs fixture_defs word_le_nat_alt)
qed


text \<open>
  Claim C7, as stated: the epoch never decreases.  The assignment \<open>v.epoch + 1\<close> is computed
  in \<^verbatim>\<open>uint64\<close>.  With the engine at epoch 5, a valid vote of epoch \<open>2^64 - 1\<close> by the only
  validator passes the guard \<open>v.epoch \<ge> epoch\<close> and has a majority, and the epoch becomes 0.
\<close>

theorem handleVote_epoch_wraps_counterexample:
  "handleVote env0 (eng st_gen 5 noVote genesis genesis) (vt 1 0 1 18446744073709551615) =
     Inr ((eng st_gen 5 noVote genesis genesis)
            \<lparr>store := st_gen\<lparr>st_votes := [vt 1 0 1 18446744073709551615]\<rparr>, epoch := 0\<rparr>,
          True) \<and>
   \<not> epoch (eng st_gen 5 noVote genesis genesis)
       \<le> epoch ((eng st_gen 5 noVote genesis genesis)
            \<lparr>store := st_gen\<lparr>st_votes := [vt 1 0 1 18446744073709551615]\<rparr>, epoch := 0\<rparr>)"
  by (simp add: engine_defs fixture_defs)

text \<open>
  Claim C7, amended: the only assignment to the epoch, in \<^verbatim>\<open>handleVote\<close>, sets it to
  \<open>v.epoch + 1\<close> (in \<^verbatim>\<open>uint64\<close>) for the handled vote \<open>v\<close> with \<open>v.epoch\<close> at least the current
  epoch.  Hence the epoch after an operation that returns is at least the epoch before it
  as long as that sum does not wrap around: for \<^verbatim>\<open>handleVote\<close> and \<^verbatim>\<open>handleStandaloneVote\<close>
  when \<open>v.epoch < 2^64 - 1\<close>; for \<^verbatim>\<open>vote\<close> when the current epoch is below \<open>2^64 - 1\<close>; for
  \<^verbatim>\<open>handleBlock\<close> when moreover the votes of the block's HCC have epochs below \<open>2^64 - 2\<close>;
  for \<^verbatim>\<open>propose\<close> when moreover the votes indexed for the highest CC block do.
\<close>

theorem epoch_nondecreasing:
  "(handleVote env e v = Inr (e', endEpoch) \<longrightarrow>
      (epoch e' = epoch e \<or> (epoch e' = vote_Epoch v + 1 \<and> epoch e \<le> vote_Epoch v)) \<and>
      (vote_Epoch v < 0xFFFFFFFFFFFFFFFF \<longrightarrow> epoch e \<le> epoch e')) \<and>
   (handleStandaloneVote env e v = Inr (e', endEpoch) \<and> vote_Epoch v < 0xFFFFFFFFFFFFFFFF
      \<longrightarrow> epoch e \<le> epoch e') \<and>
   (vote env e = Inr e1 \<and> epoch e < 0xFFFFFFFFFFFFFFFF \<longrightarrow> epoch e \<le> epoch e1) \<and>
   (handleBlock env e b = Inr e2 \<and> epoch e < 0xFFFFFFFFFFFFFFFF \<and>
    (\<forall>u\<in>set (cc_Votes (blk_HCC b)). vote_Epoch u < 0xFFFFFFFFFFFFFFFE)
      \<longrightarrow> epoch e \<le> epoch e2) \<and>
   (propose env e = Inr e3 \<and> epoch e < 0xFFFFFFFFFFFFFFFF \<and>
    (\<forall>u\<in>set (UniqueVoter env (FindVotesByHash env (store e)
              (eb_Hash env (highestCCBlock e)))). vote_Epoch u < 0xFFFFFFFFFFFFFFFE)
      \<longrightarrow> epoch e \<le> epoch e3)"
proof -
  have m1: "(0xFFFFFFFFFFFFFFFF :: u64) = - 1" and m2: "(0xFFFFFFFFFFFFFFFE :: u64) = - 2"
    by simp_all
  have a: "handleVote env e v = Inr (e', endEpoch) \<longrightarrow>
      (epoch e' = epoch e \<or> (epoch e' = vote_Epoch v + 1 \<and> epoch e \<le> vote_Epoch v)) \<and>
      (vote_Epoch v < 0xFFFFFFFFFFFFFFFF \<longrightarrow> epoch e \<le> epoch e')"
    unfolding m1 u64_lt_max using handleVote_epoch handleVote_mono by blast
  have b: "handleStandaloneVote env e v = Inr (e', endEpoch) \<and> vote_Epoch v < 0xFFFFFFFFFFFFFFFF
      \<longrightarrow> epoch e \<le> epoch e'"
    unfolding m1 u64_lt_max
    by (auto simp: handleStandaloneVote_def checkCC_epoch split: sum.splits
             dest: handleVote_mono)
  have c: "vote env e = Inr e1 \<and> epoch e < 0xFFFFFFFFFFFFFFFF \<longrightarrow> epoch e \<le> epoch e1"
    unfolding m1 u64_lt_max using vote_mono by blast
  have d: "handleBlock env e b = Inr e2 \<and> epoch e < 0xFFFFFFFFFFFFFFFF \<and>
    (\<forall>u\<in>set (cc_Votes (blk_HCC b)). vote_Epoch u < 0xFFFFFFFFFFFFFFFE)
      \<longrightarrow> epoch e \<le> epoch e2"
    unfolding m1 m2 u64_lt_max using handleBlock_mono by blast
  have f: "propose env e = Inr e3 \<and> epoch e < 0xFFFFFFFFFFFFFFFF \<and>
    (\<forall>u\<in>set (UniqueVoter env (FindVotesByHash env (store e)
              (eb_Hash env (highestCCBlock e)))). vote_Epoch u < 0xFFFFFFFFFFFFFFFE)
      \<longrightarrow> epoch e \<le> epoch e3"
    unfolding m1 m2 u64_lt_max using propose_mono by blast
  from a b c d f show ?thesis by blast
qed

theorem epoch_nondecreasing_witness:
  "(\<exists>e'. handleVote env0 (eng st_gen 1 noVote genesis genesis) (vt 1 0 1 3) = Inr (e', True) \<and>
      vote_Epoch (vt 1 0 1 3) < 0xFFFFFFFFFFFFFFFF \<and> epoch e' = 4 \<and>
      epoch (eng st_gen 1 noVote genesis genesis) \<le> epoch e') \<and>
   (\<exists>e'. handleStandaloneVote env0 (eng st_gen 1 noVote genesis genesis) (vt 2 1 1 3)
        = Inr (e', True) \<and>
      epoch e' = 4 \<and> epoch (eng st_gen 1 noVote genesis genesis) \<le> epoch e') \<and>
   (\<exists>e1. vote env0 (eng st_valid 5 noVote genesis genesis) = Inr e1 \<and>
      epoch (eng st_valid 5 noVote genesis genesis) < 0xFFFFFFFFFFFFFFFF \<and>
      epoch e1 = 6 \<and> epoch (eng st_valid 5 noVote genesis genesis) \<le> epoch e1) \<and>
   (\<exists>e2. handleBlock env0 (eng st_gen 0 noVote genesis genesis) (blk 1 1 (cc 1 [vt 1 0 1 3]))
        = Inr e2 \<and>
      (\<forall>u\<in>set (cc_Votes (blk_HCC (blk 1 1 (cc 1 [vt 1 0 1 3])))).
          vote_Epoch u < 0xFFFFFFFFFFFFFFFE) \<and>
      epoch e2 = 4 \<and> epoch (eng st_gen 0 noVote genesis genesis) \<le> epoch e2) \<and>
   (\<exists>e3. propose env0 (eng st_only 1 noVote genesis0 genesis0) = Inr e3 \<and>
      UniqueVoter env0 (FindVotesByHash env0 (store (eng st_only 1 noVote genesis0 genesis0))
        (eb_Hash env0 (highestCCBlock (eng st_only 1 noVote genesis0 genesis0)))) = [vt 1 0 1 1] \<and>
      epoch e3 = 3 \<and> epoch (eng st_only 1 noVote genesis0 genesis0) \<le> epoch e3)"
proof -
  have "\<exists>e'. handleVote env0 (eng st_gen 1 noVote genesis genesis) (vt 1 0 1 3) = Inr (e', True)
          \<and> epoch e' = 4"
    by (simp add: engine_defs fixture_defs word_le_nat_alt)
  then obtain x1 where
    a1: "handleVote env0 (eng st_gen 1 noVote genesis genesis) (vt 1 0 1 3) = Inr (x1, True)"
    and n1: "epoch x1 = 4" by blast
  have h1: "vote_Epoch (vt 1 0 1 3) < 0xFFFFFFFFFFFFFFFF" by (simp add: fixture_defs)
  from epoch_nondecreasing [THEN conjunct1, rule_format, OF a1, THEN conjunct2, rule_format, OF h1]
  have c1: "epoch (eng st_gen 1 noVote genesis genesis) \<le> epoch x1" .
  have "\<exists>e'. handleStandaloneVote env0 (eng st_gen 1 noVote genesis genesis) (vt 2 1 1 3)
          = Inr (e', True) \<and> epoch e' = 4"
    by (simp add: engine_defs fixture_defs word_le_nat_alt)
  then obtain x2 where
    a2: "handleStandaloneVote env0 (eng st_gen 1 noVote genesis genesis) (vt 2 1 1 3)
           = Inr (x2, True)"
    and n2: "epoch x2 = 4" by blast
  have h2: "vote_Epoch (vt 2 1 1 3) < 0xFFFFFFFFFFFFFFFF" by (simp add: fixture_defs)
  from epoch_nondecreasing [THEN conjunct2, THEN conjunct1, rule_format, OF conjI, OF a2 h2]
  have c2: "epoch (eng st_gen 1 noVote genesis genesis) \<le> epoch x2" .
  have "\<exists>e1. vote env0 (eng st_valid 5 noVote genesis genesis) = Inr e1 \<and> epoch e1 = 6"
    by (simp add: engine_defs fixture_defs)
  then obtain x3 where
    a3: "vote env0 (eng st_valid 5 noVote genesis genesis) = Inr x3"
    and n3: "epoch x3 = 6" by blast
  have h3: "epoch (eng st_valid 5 noVote genesis genesis) < 0xFFFFFFFFFFFFFFFF"
    by (simp add: fixture_defs)
  from epoch_nondecreasing
         [THEN conjunct2, THEN conjunct2, THEN conjunct1, rule_format, OF conjI, OF a3 h3]
  have c3: "epoch (eng st_valid 5 noVote genesis genesis) \<le> epoch x3" .
  have "\<exists>e2. handleBlock env0 (eng st_gen 0 noVote genesis genesis)
          (blk 1 1 (cc 1 [vt 1 0 1 3])) = Inr e2 \<and> epoch e2 = 4"
    by (simp add: engine_defs fixture_defs u64_lt_max)
  then obtain x4 where
    a4: "handleBlock env0 (eng st_gen 0 noVote genesis genesis)
          (blk 1 1 (cc 1 [vt 1 0 1 3])) = Inr x4"
    and n4: "epoch x4 = 4" by blast
  have h4: "epoch (eng st_gen 0 noVote genesis genesis) < 0xFFFFFFFFFFFFFFFF"
    by (simp add: fixture_defs)
  have g4: "\<forall>u\<in>set (cc_Votes (blk_HCC (blk 1 1 (cc 1 [vt 1 0 1 3])))).
              vote_Epoch u < 0xFFFFFFFFFFFFFFFE"
    by (simp add: fixture_defs)
  from epoch_nondecreasing
         [THEN conjunct2, THEN conjunct2, THEN conjunct2, THEN conjunct1, rule_format,
          OF conjI, OF a4 conjI, OF h4 g4]
  have c4: "epoch (eng st_gen 0 noVote genesis genesis) \<le> epoch x4" .
  have "\<exists>e3. propose env0 (eng st_only 1 noVote genesis0 genesis0) = Inr e3 \<and> epoch e3 = 3"
    by (simp add: engine_defs fixture_defs u64_lt_max)
  then obtain x5 where
    a5: "propose env0 (eng st_only 1 noVote genesis0 genesis0) = Inr x5"
    and n5: "epoch x5 = 3" by blast
  have h5: "epoch (eng st_only 1 noVote genesis0 genesis0) < 0xFFFFFFFFFFFFFFFF"
    by (simp add: fixture_defs)
  have u5: "UniqueVoter env0 (FindVotesByHash env0 (store (eng st_only 1 noVote genesis0 genesis0))
        (eb_Hash env0 (highestCCBlock (eng st_only 1 noVote genesis0 genesis0)))) = [vt 1 0 1 1]"
    by (simp add: engine_defs fixture_defs)
  have g5: "\<forall>u\<in>set (UniqueVoter env0 (FindVotesByHash env0
               (store (eng st_only 1 noVote genesis0 genesis0))
               (eb_Hash env0 (highestCCBlock (eng st_only 1 noVote genesis0 genesis0))))).
              vote_Epoch u < 0xFFFFFFFFFFFFFFFE"
    unfolding u5 by (simp add: fixture_defs)
  from epoch_nondecreasing
         [THEN conjunct2, THEN conjunct2, THEN conjunct2, THEN conjunct2, rule_format,
          OF conjI, OF a5 conjI, OF h5 g5]
  have c5: "epoch (eng st_only 1 noVote genesis0 genesis0) \<le> epoch x5" .
  from a1 n1 h1 c1 have r1: "\<exists>e'. handleVote env0 (eng st_gen 1 noVote genesis genesis) (vt 1 0 1 3) = Inr (e', True) \<and>
      vote_Epoch (vt 1 0 1 3) < 0xFFFFFFFFFFFFFFFF \<and> epoch e' = 4 \<and>
      epoch (eng st_gen 1 noVote genesis genesis) \<le> epoch e'" by blast
  from a2 n2 c2 have r2: "\<exists>e'. handleStandaloneVote env0 (eng st_gen 1 noVote genesis genesis) (vt 2 1 1 3)
        = Inr (e', True) \<and>
      epoch e' = 4 \<and> epoch (eng st_gen 1 noVote genesis genesis) \<le> epoch e'" by blast
  from a3 n3 h3 c3 have r3: "\<exists>e1. vote env0 (eng st_valid 5 noVote genesis genesis) = Inr e1 \<and>
      epoch (eng st_valid 5 noVote genesis genesis) < 0xFFFFFFFFFFFFFFFF \<and>
      epoch e1 = 6 \<and> epoch (eng st_valid 5 noVote genesis genesis) \<le> epoch e1" by blast
  from a4 n4 g4 c4 have r4: "\<exists>e2. handleBlock env0 (eng st_gen 0 noVote genesis genesis) (blk 1 1 (cc 1 [vt 1 0 1 3]))
        = Inr e2 \<and>
      (\<forall>u\<in>set (cc_Votes (blk_HCC (blk 1 1 (cc 1 [vt 1 0 1 3])))).
          vote_Epoch u < 0xFFFFFFFFFFFFFFFE) \<and>
      epoch e2 = 4 \<and> epoch (eng st_gen 0 noVote genesis genesis) \<le> epoch e2" by blast
  from a5 n5 u5 c5 have r5: "\<exists>e3. propose env0 (eng st_only 1 noVote genesis0 genesis0) = Inr e3 \<and>
      UniqueVoter env0 (FindVotesByHash env0 (store (eng st_only 1 noVote genesis0 genesis0))
        (eb_Hash env0 (highestCCBlock (eng st_only 1 noVote genesis0 genesis0)))) = [vt 1 0 1 1] \<and>
      epoch e3 = 3 \<and> epoch (eng st_only 1 noVote genesis0 genesis0) \<le> epoch e3" by blast
  from r1 r2 r3 r4 r5 show ?thesis by (intro conjI)
qed

section \<open>Voting after a block\<close>

text \<open>
  Claim C5 says that \<^verbatim>\<open>handleBlock\<close> votes exactly when \<open>b.epoch \<ge> currentEpoch - 1\<close> in exact
  integer arithmetic.  The code evaluates \<open>block.Epoch < e.GetEpoch() - 1\<close> in \<^verbatim>\<open>uint64\<close>: at
  epoch 0 the right-hand side is \<open>2^64 - 1\<close>.  A valid block of epoch 1 that extends the
  genesis block is marked Valid, but the engine at epoch 0 sends no vote and records none;
  from epoch 1 the same block is voted for.
\<close>

theorem handleBlock_epoch_zero_skips_vote:
  "blk_Epoch (blk 1 1 (cc 1 [])) = 1 \<and>
   handleBlock env0 (eng st_gen 0 noVote genesis genesis) (blk 1 1 (cc 1 [])) =
     Inr ((eng st_gen 0 noVote genesis genesis)\<lparr>store := setStatus Valid st_gen 2\<rparr>) \<and>
   handleBlock env0 (eng st_gen 1 noVote genesis genesis) (blk 1 1 (cc 1 [])) =
     Inr ((eng st_gen 1 noVote genesis genesis)
            \<lparr>store := (setStatus Valid st_gen 2)\<lparr>st_votes := [vt 2 1 1 1]\<rparr>,
             sent := [OutVote (vt 2 1 1 1)], epoch := 2, lastVote := vt 2 1 1 1\<rparr>)"
  by (simp add: engine_defs fixture_defs u64_lt_max)

end
